theory Spec2Isabelle
  imports Complex_Main "HOL-Library.List_Lexorder" "HOL-Library.Log_Nat"
begin

section \<open>Values, errors and promises\<close>

text \<open>
  The helpers module of the favicon generator is embedded function by function. A
  JavaScript number is an IEEE double. Pixel dimensions are taken to be integers of
  magnitude below \<open>2^53\<close>, on which the arithmetic of the code is exact: they are
  of type \<open>int\<close>, so that the inner size of a plane can become zero or negative as
  it can in the code. The offset percentage is a finite double, given by its rational
  value, and its product and quotient are rounded as doubles are. An absent optional
  field is \<open>None\<close>.
\<close>

datatype error = Error string | TypeError string

text \<open>
  An \<open>async\<close> function returns a promise. A rejected promise is \<open>Inl es\<close>: \<open>es\<close> lists
  the rejection reasons among which the caller observes one. Sequential code rejects
  with a single reason; only \<open>Promise.all\<close> over several rejecting tasks leaves more
  than one candidate, because the reason it surfaces is the one that settles first in
  time, which the embedding does not decide.
\<close>

type_synonym 'a promise = "error list + 'a"

text \<open>The key a ranking function returns: numbers, possibly in nested arrays.\<close>

datatype jsvalue = Number int | Array "jsvalue list"

text \<open>\<open>[a].flat(Infinity)\<close>: the numbers of \<open>a\<close>, left to right, all nesting removed.\<close>

fun flat_Infinity :: "jsvalue \<Rightarrow> int list" where
  "flat_Infinity (Number n) = [n]"
| "flat_Infinity (Array xs) = concat (map flat_Infinity xs)"

text \<open>The \<open>for\<close> loop of \<open>arrayComparator\<close>, from index \<open>i\<close> on.\<close>

function arrayComparator_loop :: "int list \<Rightarrow> int list \<Rightarrow> nat \<Rightarrow> int" where
  "arrayComparator_loop aArr bArr i =
     (if i < max (length aArr) (length bArr) then
        (if i \<ge> length aArr then - 1
         else if i \<ge> length bArr then 1
         else if aArr ! i \<noteq> bArr ! i then (if aArr ! i < bArr ! i then - 1 else 1)
         else arrayComparator_loop aArr bArr (i + 1))
      else 0)"
  by pat_completeness auto
termination
  by (relation "measure (\<lambda>(aArr, bArr, i). max (length aArr) (length bArr) - i)") auto

declare arrayComparator_loop.simps [simp del]

definition arrayComparator :: "jsvalue \<Rightarrow> jsvalue \<Rightarrow> int" where
  "arrayComparator a b = arrayComparator_loop (flat_Infinity a) (flat_Infinity b) 0"

text \<open>
  \<open>array.reduce(f)\<close> without an initial value starts from the first element and throws
  a \<open>TypeError\<close> on an empty array.
\<close>

definition minBy :: "'a list \<Rightarrow> ('a \<Rightarrow> 'a \<Rightarrow> int) \<Rightarrow> error + 'a" where
  "minBy array comparator =
     (case array of
        [] \<Rightarrow> Inl (TypeError ''Reduce of empty array with no initial value'')
      | first # rest \<Rightarrow>
          Inr (foldl (\<lambda>acc cur. if comparator acc cur < 0 then acc else cur) first rest))"

definition minByKey :: "'a list \<Rightarrow> ('a \<Rightarrow> jsvalue) \<Rightarrow> error + 'a" where
  "minByKey array keyFn = minBy array (\<lambda>a b. arrayComparator (keyFn a) (keyFn b))"

datatype unknown = UndefinedValue | BooleanValue bool | StringValue string


section \<open>The raster engine, as the calls made to it\<close>

text \<open>
  The raster engine (sharp) is a collaborator outside the repository. A pipeline is
  kept as the term of the calls the code makes on it, in call order: the input it is
  constructed from and the operations chained onto it. A buffer is either bytes the
  caller supplied, the bytes the engine renders from a pipeline (\<open>Rendered\<close>), or the
  output of the container encoder \<open>toIco\<close> of the ico module, which is kept as a call
  as well. \<open>RawImage\<close> is the data and info the engine resolves with for a pipeline
  when asked for both. \<open>svgDensity m w h\<close> stands for the value the density helper of
  the svgtool module returns.
\<close>

record CreateOptions =
  width :: int
  height :: int
  channels :: nat
  background :: string

record ResizeOptions =
  width :: int
  height :: int
  fit :: string
  background :: string
  kernel :: "string option"

record Metadata =
  width :: int
  height :: int
  format :: string

datatype density = svgDensity Metadata int int

datatype buffer = Bytes "nat list" | Rendered sharp | toIco "contents list"
and contents = Buffer buffer | RawImage sharp
and sharp = Sharp sharp_input "sharp_op list"
and sharp_input = FromBuffer buffer "density option" | Create CreateOptions
and sharp_op =
    EnsureAlpha
  | Resize ResizeOptions
  | Composite "overlay list"
  | Rotate int
  | ToColorspace string
  | Raw string
  | Png
and overlay = Overlay buffer int int

text \<open>A method call on a pipeline appends its operation.\<close>

fun chain :: "sharp \<Rightarrow> sharp_op \<Rightarrow> sharp" where
  "chain (Sharp inp ops) op = Sharp inp (ops @ [op])"

text \<open>
  Whether the engine renders a pipeline is a parameter of every function that awaits
  it: \<open>engine pipeline\<close> is \<open>None\<close> when the engine renders the pipeline and \<open>Some e\<close>
  when it throws \<open>e\<close>, be it at the call that finds a fault in its arguments or when
  the output is awaited; inside an \<open>async\<close> function both reject its promise.
\<close>

type_synonym engine = "sharp \<Rightarrow> error option"

text \<open>\<open>await pipeline.toBuffer()\<close>\<close>

definition toBuffer :: "engine \<Rightarrow> sharp \<Rightarrow> buffer promise" where
  "toBuffer engine pipeline =
     (case engine pipeline of Some e \<Rightarrow> Inl [e] | None \<Rightarrow> Inr (Rendered pipeline))"

text \<open>\<open>await pipeline.toBuffer({ resolveWithObject: true })\<close>\<close>

definition toBuffer_resolveWithObject :: "engine \<Rightarrow> sharp \<Rightarrow> contents promise" where
  "toBuffer_resolveWithObject engine pipeline =
     (case engine pipeline of Some e \<Rightarrow> Inl [e] | None \<Rightarrow> Inr (RawImage pipeline))"

section \<open>Data model\<close>

record SourceImage =
  data :: buffer
  metadata :: Metadata

record IconPlaneOptions =
  width :: int
  height :: int
  offset :: "rat option"
  pixelArt :: bool
  background :: "string option"
  transparent :: bool
  rotate :: bool

record FaviconImage =
  name :: string
  contents :: contents

text \<open>
  \<open>IconOptions\<close> and its sizes are declared in the configuration module; the fields are
  those \<open>flattenIconOptions\<close> reads.
\<close>

record IconSize =
  width :: int
  height :: int

record IconOptions =
  sizes :: "IconSize list"
  offset :: "rat option"
  pixelArt :: "bool option"
  background :: unknown
  transparent :: bool
  rotate :: bool


section \<open>Source selection\<close>

text \<open>
  A parameter or local variable whose name is also a field name carries a prime
  (\<open>width'\<close> for the code's \<open>width\<close>).
\<close>

definition bestSource :: "SourceImage list \<Rightarrow> int \<Rightarrow> int \<Rightarrow> error + SourceImage" where
  "bestSource sourceset width' height' =
     (let sideSize = max width' height' in
      minByKey sourceset (\<lambda>icon.
        let iconSideSize = max (Metadata.width (metadata icon)) (Metadata.height (metadata icon)) in
        Array
          [Number (if format (metadata icon) = ''svg'' then 0 else 1),
           Number (if iconSideSize \<ge> sideSize then 0 else 1),
           Number \<bar>iconSideSize - sideSize\<bar>]))"

section \<open>Rendering one plane\<close>

definition resize :: "engine \<Rightarrow> SourceImage \<Rightarrow> int \<Rightarrow> int \<Rightarrow> bool \<Rightarrow> buffer promise" where
  "resize engine source width' height' pixelArt' =
     (if format (metadata source) = ''svg'' then
        (let density = svgDensity (metadata source) width' height' in
         toBuffer engine
           (chain (Sharp (FromBuffer (data source) (Some density)) [])
              (Resize \<lparr>ResizeOptions.width = width', height = height', fit = ''contain'',
                 background = ''#00000000'', kernel = None\<rparr>)))
      else
        toBuffer engine
          (chain (chain (Sharp (FromBuffer (data source) None) []) EnsureAlpha)
             (Resize \<lparr>ResizeOptions.width = width', height = height', fit = ''contain'',
                background = ''#00000000'',
                kernel = Some
                  (if pixelArt' \<and> width' \<ge> Metadata.width (metadata source)
                      \<and> height' \<ge> Metadata.height (metadata source)
                   then ''nearest'' else ''lanczos3'')\<rparr>)))"

text \<open>
  \<open>!background\<close> holds for an absent and for an empty string. In the other branch the
  background is present, so \<open>the\<close> reads a \<open>Some\<close>.
\<close>

definition createBlankImage :: "int \<Rightarrow> int \<Rightarrow> string option \<Rightarrow> sharp" where
  "createBlankImage width' height' background' =
     (let transparent' =
            (background' = None \<or> background' = Some [] \<or> background' = Some ''transparent'');
          image = Sharp (Create
            \<lparr>CreateOptions.width = width', height = height',
             channels = (if transparent' then 4 else 3),
             background = (if transparent' then ''#00000000'' else the background')\<rparr>) []
      in if transparent' then chain image EnsureAlpha else image)"

subsection \<open>Double arithmetic\<close>

text \<open>
  The nearest double of a rational: 53 significant bits, a tie going to the even
  significand, and the spacing of the subnormal range below \<open>2^-1022\<close>. \<open>exponent x\<close>
  is the integer \<open>e\<close> with \<open>2^e \<le> x < 2^(e+1)\<close> for a positive \<open>x\<close>. A magnitude
  of \<open>2^1024\<close> or more, which the code holds as an infinity, stays the number it is:
  the inner size of a plane is then no size a resize accepts, in the code as here.
\<close>

definition pow2 :: "int \<Rightarrow> rat" where
  "pow2 k = (if 0 \<le> k then 2 ^ nat k else 1 / 2 ^ nat (- k))"

definition exponent :: "rat \<Rightarrow> int" where
  "exponent x = (if 1 \<le> x then bitlen \<lfloor>x\<rfloor> - 1 else - bitlen (\<lceil>1 / x\<rceil> - 1))"

definition round_half_even :: "rat \<Rightarrow> int" where
  "round_half_even q =
     (let n = \<lfloor>q\<rfloor>; r = q - of_int n
      in if r < 1 / 2 then n else if 1 / 2 < r then n + 1 else if even n then n else n + 1)"

definition to_double :: "rat \<Rightarrow> rat" where
  "to_double x =
     (if x = 0 then 0
      else let ulp = pow2 (max (exponent \<bar>x\<bar>) (- 1022) - 52)
           in of_int (round_half_even (x / ulp)) * ulp)"

text \<open>The operators \<open>*\<close> and \<open>/\<close> on doubles.\<close>

definition double_times :: "rat \<Rightarrow> rat \<Rightarrow> rat" where
  "double_times a b = to_double (a * b)"

definition double_divide :: "rat \<Rightarrow> rat \<Rightarrow> rat" where
  "double_divide a b = to_double (a / b)"

text \<open>\<open>Math.round\<close> rounds to the nearest integer, a half towards plus infinity.\<close>

definition Math_round :: "rat \<Rightarrow> int" where
  "Math_round x = \<lfloor>x + 1 / 2\<rfloor>"

subsection \<open>The plane\<close>

text \<open>
  With an absent offset the product is \<open>NaN\<close>, which \<open>|| 0\<close> replaces by 0, as it does
  a rounded value of 0. A percentage that is written as a decimal denotes the nearest
  double. Each awaited call of the engine can reject, and the rejection is that of
  \<open>createPlaneFavicon\<close>: first the resize, and after it the canvas pipeline.
\<close>

definition createPlaneFavicon ::
  "engine \<Rightarrow> SourceImage list \<Rightarrow> IconPlaneOptions \<Rightarrow> string \<Rightarrow> bool \<Rightarrow> FaviconImage promise" where
  "createPlaneFavicon engine sourceset options name' raw =
     (let offset' =
            (case IconPlaneOptions.offset options of
               None \<Rightarrow> 0
             | Some percent \<Rightarrow>
                 (let rounded = Math_round
                        (double_divide
                           (double_times
                              (of_int (max (IconPlaneOptions.width options)
                                 (IconPlaneOptions.height options)))
                              (to_double percent))
                           100)
                  in if rounded = 0 then 0 else rounded));
          width' = IconPlaneOptions.width options - offset' * 2;
          height' = IconPlaneOptions.height options - offset' * 2
      in case bestSource sourceset width' height' of
           Inl e \<Rightarrow> Inl [e]
         | Inr source \<Rightarrow>
             (case resize engine source width' height' (IconPlaneOptions.pixelArt options) of
                Inl es \<Rightarrow> Inl es
              | Inr image' \<Rightarrow>
                  (let pipeline = chain
                         (createBlankImage (IconPlaneOptions.width options)
                            (IconPlaneOptions.height options)
                            (IconPlaneOptions.background options))
                         (Composite [Overlay image' offset' offset']);
                       pipeline = (if IconPlaneOptions.rotate options
                                   then chain pipeline (Rotate 90) else pipeline)
                   in if raw then
                        (case toBuffer_resolveWithObject engine
                                (chain (chain pipeline (ToColorspace ''srgb'')) (Raw ''uchar'')) of
                           Inl es \<Rightarrow> Inl es
                         | Inr contents' \<Rightarrow> Inr \<lparr>name = name', contents = contents'\<rparr>)
                      else
                        (case toBuffer engine (chain pipeline Png) of
                           Inl es \<Rightarrow> Inl es
                         | Inr buffer \<Rightarrow> Inr \<lparr>name = name', contents = Buffer buffer\<rparr>))))"

section \<open>Fan-out\<close>

text \<open>The sequential branch: the \<open>for\<close> loop over the inputs, with its \<open>result\<close> and \<open>index\<close>.\<close>

fun mapAsync_sequential ::
  "'a list \<Rightarrow> ('a \<Rightarrow> nat \<Rightarrow> 'b promise) \<Rightarrow> 'b list \<Rightarrow> nat \<Rightarrow> 'b list promise" where
  "mapAsync_sequential [] computation result index = Inr result"
| "mapAsync_sequential (input # inputs) computation result index =
     (case computation input index of
        Inl es \<Rightarrow> Inl es
      | Inr u \<Rightarrow> mapAsync_sequential inputs computation (result @ [u]) (index + 1))"

text \<open>
  \<open>Promise.all\<close> fulfils with the values in the order of the promises when all of them
  fulfil, and rejects otherwise; every rejected promise is a candidate for the reason.
\<close>

fun Promise_all :: "'b promise list \<Rightarrow> 'b list promise" where
  "Promise_all [] = Inr []"
| "Promise_all (p # ps) =
     (case p of
        Inr v \<Rightarrow> (case Promise_all ps of Inr vs \<Rightarrow> Inr (v # vs) | Inl es \<Rightarrow> Inl es)
      | Inl e \<Rightarrow> (case Promise_all ps of Inr vs \<Rightarrow> Inl e | Inl es \<Rightarrow> Inl (e @ es)))"

text \<open>\<open>inputs.map(computation)\<close> passes each element with its index.\<close>

definition mapAsync ::
  "string \<Rightarrow> 'a list \<Rightarrow> ('a \<Rightarrow> nat \<Rightarrow> 'b promise) \<Rightarrow> 'b list promise" where
  "mapAsync platform inputs computation =
     (if platform = ''win32'' then mapAsync_sequential inputs computation [] 0
      else Promise_all
        (map (\<lambda>(input, index). computation input index) (zip inputs [0..<length inputs])))"

section \<open>Assembling an artifact\<close>

text \<open>A number in a template string: decimal digits, a minus sign before a negative one.\<close>

fun digits :: "nat \<Rightarrow> string" where
  "digits n =
     (if n < 10 then [char_of (48 + n)] else digits (n div 10) @ [char_of (48 + n mod 10)])"

definition string_of_number :: "int \<Rightarrow> string" where
  "string_of_number n = (if n < 0 then CHR ''-'' # digits (nat (- n)) else digits (nat n))"

text \<open>
  \<open>path.extname\<close> of the platform library, which follows the platform. It returns the
  part of the last path segment from its last dot on, and the empty string when that
  segment has no dot, has its only dot in front, or is \<open>..\<close>; trailing separators are
  ignored. The separator is the slash; under win32 the backslash separates as well,
  and a drive prefix (a letter and a colon) is not part of the path that is scanned.
  The segment is handled reversed.
\<close>

definition isPathSeparator :: "string \<Rightarrow> char \<Rightarrow> bool" where
  "isPathSeparator platform c =
     (c = CHR ''/'' \<or> (platform = ''win32'' \<and> c = CHR 0x5C))"

definition isWindowsDeviceRoot :: "char \<Rightarrow> bool" where
  "isWindowsDeviceRoot c =
     (let code = (of_char c :: nat)
      in (65 \<le> code \<and> code \<le> 90) \<or> (97 \<le> code \<and> code \<le> 122))"

definition extname :: "string \<Rightarrow> string \<Rightarrow> string" where
  "extname platform path =
     (let scanned =
            (if platform = ''win32'' \<and> 2 \<le> length path \<and> path ! 1 = CHR '':''
                \<and> isWindowsDeviceRoot (path ! 0)
             then drop 2 path else path);
          segment = takeWhile (\<lambda>c. \<not> isPathSeparator platform c)
                      (dropWhile (isPathSeparator platform) (rev scanned));
          ext = takeWhile (\<lambda>c. c \<noteq> CHR ''.'') segment
      in if CHR ''.'' \<notin> set segment \<or> drop (length ext + 1) segment = [] \<or> segment = ''..''
         then [] else CHR ''.'' # rev ext)"


section \<open>Loading sources\<close>

text \<open>
  What a caller can pass as a source: a buffer, a string, an array of such values, or
  anything else.
\<close>

datatype source = BufferSource buffer | StringSource string | ArraySource "source list"
  | OtherSource

fun isArray :: "source \<Rightarrow> bool" where
  "isArray (ArraySource xs) = True"
| "isArray _ = False"

lemma mapAsync_sequential_cong:
  "(\<And>x i. x \<in> set inputs \<Longrightarrow> f x i = g x i) \<Longrightarrow>
   mapAsync_sequential inputs f result index = mapAsync_sequential inputs g result index"
  by (induction inputs arbitrary: result index) (auto split: sum.splits)

lemma mapAsync_cong [fundef_cong]:
  assumes "platform = platform'" and "inputs = inputs'"
    and "\<And>x i. x \<in> set inputs' \<Longrightarrow> f x i = g x i"
  shows "mapAsync platform inputs f = mapAsync platform' inputs' g"
proof -
  have conc: "map (\<lambda>(input, index). f input index) (zip inputs' [0..<length inputs'])
      = map (\<lambda>(input, index). g input index) (zip inputs' [0..<length inputs'])"
    using assms(3) by (auto dest: set_zip_leftD)
  have seq: "mapAsync_sequential inputs' f [] 0 = mapAsync_sequential inputs' g [] 0"
    using assms(3) by (rule mapAsync_sequential_cong)
  show ?thesis
    unfolding mapAsync_def assms(1) assms(2) conc seq by (rule refl)
qed

text \<open>
  The file system and the decoder of the raster engine are parameters: \<open>readFile\<close>
  gives the bytes of a path or the error it fails with, \<open>sharp_metadata\<close> the metadata of
  a buffer, \<open>None\<close> when the engine throws.
\<close>

function sourceImages ::
  "string \<Rightarrow> (string \<Rightarrow> error + buffer) \<Rightarrow> (buffer \<Rightarrow> Metadata option) \<Rightarrow> source
     \<Rightarrow> SourceImage list promise" where
  "sourceImages platform readFile sharp_metadata (BufferSource src) =
     (case sharp_metadata src of
        Some m \<Rightarrow> Inr [\<lparr>data = src, metadata = m\<rparr>]
      | None \<Rightarrow> Inl [Error ''Invalid image buffer''])"
| "sourceImages platform readFile sharp_metadata (StringSource src) =
     (case readFile src of
        Inl e \<Rightarrow> Inl [e]
      | Inr buffer \<Rightarrow> sourceImages platform readFile sharp_metadata (BufferSource buffer))"
| "sourceImages platform readFile sharp_metadata (ArraySource src) =
     (if \<not> list_ex isArray src then
        (if src = [] then Inl [Error ''No source provided'']
         else
           (case mapAsync platform src
                   (\<lambda>x index. sourceImages platform readFile sharp_metadata x) of
              Inl es \<Rightarrow> Inl es
            | Inr images \<Rightarrow> Inr (concat images)))
      else Inl [Error ''Invalid source type provided''])"
| "sourceImages platform readFile sharp_metadata OtherSource =
     Inl [Error ''Invalid source type provided'']"
  by pat_completeness auto

fun source_depth :: "source \<Rightarrow> nat" where
  "source_depth (BufferSource b) = 0"
| "source_depth (StringSource s) = 1"
| "source_depth (ArraySource xs) = 2 + sum_list (map source_depth xs)"
| "source_depth OtherSource = 0"

lemma source_depth_member: "x \<in> set xs \<Longrightarrow> source_depth x \<le> sum_list (map source_depth xs)"
  by (induction xs) auto

termination sourceImages
  by (relation "measure (\<lambda>(platform, readFile, sharp_metadata, src). source_depth src)")
    (auto dest: source_depth_member)

section \<open>The ranking of the source selector, as specified\<close>

text \<open>
  The specification ranks a candidate by three criteria, compared lexicographically:
  its format class (vector before raster), its scale direction (a source whose larger
  side reaches the larger target side before one that must be scaled up), and its size
  distance (the absolute difference of the two larger sides).
\<close>

definition format_class :: "SourceImage \<Rightarrow> int" where
  "format_class icon = (if format (metadata icon) = ''svg'' then 0 else 1)"

definition larger_side :: "SourceImage \<Rightarrow> int" where
  "larger_side icon = max (Metadata.width (metadata icon)) (Metadata.height (metadata icon))"

definition scale_direction :: "SourceImage \<Rightarrow> int \<Rightarrow> int" where
  "scale_direction icon side = (if larger_side icon \<ge> side then 0 else 1)"

definition size_distance :: "SourceImage \<Rightarrow> int \<Rightarrow> int" where
  "size_distance icon side = \<bar>larger_side icon - side\<bar>"

definition ranking :: "SourceImage \<Rightarrow> int \<Rightarrow> int \<times> int \<times> int" where
  "ranking icon side = (format_class icon, scale_direction icon side, size_distance icon side)"

fun ranks_before :: "int \<times> int \<times> int \<Rightarrow> int \<times> int \<times> int \<Rightarrow> bool" where
  "ranks_before (a, b, c) (a', b', c') = (a < a' \<or> (a = a' \<and> (b < b' \<or> (b = b' \<and> c < c'))))"

definition ranks_not_after :: "int \<times> int \<times> int \<Rightarrow> int \<times> int \<times> int \<Rightarrow> bool" where
  "ranks_not_after r r' = (ranks_before r r' \<or> r = r')"

text \<open>The key function \<open>bestSource\<close> passes to \<open>minByKey\<close>, by name.\<close>

definition selection_key :: "int \<Rightarrow> SourceImage \<Rightarrow> jsvalue" where
  "selection_key sideSize icon =
     (let iconSideSize = max (Metadata.width (metadata icon)) (Metadata.height (metadata icon)) in
        Array
          [Number (if format (metadata icon) = ''svg'' then 0 else 1),
           Number (if iconSideSize \<ge> sideSize then 0 else 1),
           Number \<bar>iconSideSize - sideSize\<bar>])"

text \<open>Sources used as concrete inputs.\<close>

definition raster16 :: "nat \<Rightarrow> SourceImage" where
  "raster16 tag = \<lparr>data = Bytes [tag],
     metadata = \<lparr>Metadata.width = 16, height = 16, format = ''png''\<rparr>\<rparr>"

definition vector4 :: SourceImage where
  "vector4 = \<lparr>data = Bytes [0],
     metadata = \<lparr>Metadata.width = 4, height = 4, format = ''svg''\<rparr>\<rparr>"

section \<open>Reading a pipeline\<close>

text \<open>
  Observers of the recorded calls: the input, the operations, the images composited,
  the boxes resized to, the angles rotated by.
\<close>

fun pipeline_input :: "sharp \<Rightarrow> sharp_input" where
  "pipeline_input (Sharp inp ops) = inp"

fun operations :: "sharp \<Rightarrow> sharp_op list" where
  "operations (Sharp inp ops) = ops"

fun rendered_by :: "contents \<Rightarrow> sharp option" where
  "rendered_by (RawImage pipeline) = Some pipeline"
| "rendered_by (Buffer (Rendered pipeline)) = Some pipeline"
| "rendered_by (Buffer _) = None"

fun overlays :: "sharp_op list \<Rightarrow> overlay list" where
  "overlays [] = []"
| "overlays (Composite images # ops) = images @ overlays ops"
| "overlays (_ # ops) = overlays ops"

fun resize_boxes :: "sharp_op list \<Rightarrow> ResizeOptions list" where
  "resize_boxes [] = []"
| "resize_boxes (Resize box # ops) = box # resize_boxes ops"
| "resize_boxes (_ # ops) = resize_boxes ops"

fun rotations :: "sharp_op list \<Rightarrow> int list" where
  "rotations [] = []"
| "rotations (Rotate angle # ops) = angle # rotations ops"
| "rotations (_ # ops) = rotations ops"

text \<open>
  The pixel offset as the specification computes it, in the arithmetic of the code: the
  larger target side times the offset percentage over 100, each a double, rounded to
  the nearest integer; and 0 for an absent offset.
\<close>

definition offset_px :: "IconPlaneOptions \<Rightarrow> int" where
  "offset_px options =
     (case IconPlaneOptions.offset options of
        None \<Rightarrow> 0
      | Some percent \<Rightarrow>
          Math_round
            (double_divide
               (double_times
                  (of_int (max (IconPlaneOptions.width options) (IconPlaneOptions.height options)))
                  (to_double percent))
               100))"

text \<open>
  The pixel size of the image the engine renders from a pipeline, when it renders it,
  as the engine documents it: with a resize under the contain fit it is the box asked
  for; without one it is the size of a created canvas, its sides exchanged by a rotation
  of an odd multiple of 90 degrees. The size of a decoded input that is not resized is
  not known from the calls (\<open>None\<close>), nor is that of a rotation by another angle.
\<close>

definition output_size :: "sharp \<Rightarrow> (int \<times> int) option" where
  "output_size pipeline =
     (case resize_boxes (operations pipeline) of
        [] \<Rightarrow>
          (case pipeline_input pipeline of
             Create canvas \<Rightarrow>
               (let angle = (case rotations (operations pipeline) of [] \<Rightarrow> 0 | angles \<Rightarrow> last angles)
                in if angle mod 180 = 0
                   then Some (CreateOptions.width canvas, CreateOptions.height canvas)
                   else if angle mod 180 = 90
                   then Some (CreateOptions.height canvas, CreateOptions.width canvas)
                   else None)
           | FromBuffer _ _ \<Rightarrow> None)
      | boxes \<Rightarrow> Some (ResizeOptions.width (last boxes), ResizeOptions.height (last boxes)))"

text \<open>
  An engine for concrete inputs. It finds the faults the engine finds in the calls
  themselves, with the engine's messages: a canvas or a resize box with a side that is
  not positive, and an image to composite that is larger than the canvas, whose sides a
  quarter turn has exchanged by then. It renders every other pipeline; faults in the
  image data are not its concern.
\<close>

fun buffer_size :: "buffer \<Rightarrow> (int \<times> int) option" where
  "buffer_size (Rendered pipeline) = output_size pipeline"
| "buffer_size _ = None"

fun overlay_fits :: "(int \<times> int) option \<Rightarrow> overlay \<Rightarrow> bool" where
  "overlay_fits (Some (w, h)) (Overlay image' x y) =
     (case buffer_size image' of Some (w', h') \<Rightarrow> w' \<le> w \<and> h' \<le> h | None \<Rightarrow> True)"
| "overlay_fits None overlay = True"

fun box_fault :: "ResizeOptions list \<Rightarrow> error option" where
  "box_fault [] = None"
| "box_fault (box # boxes) =
     (if ResizeOptions.width box \<le> 0
      then Some (Error (''Expected positive integer for width but received ''
             @ string_of_number (ResizeOptions.width box) @ '' of type number''))
      else if ResizeOptions.height box \<le> 0
      then Some (Error (''Expected positive integer for height but received ''
             @ string_of_number (ResizeOptions.height box) @ '' of type number''))
      else box_fault boxes)"

definition validating_engine :: engine where
  "validating_engine pipeline =
     (if (case pipeline_input pipeline of
            Create canvas \<Rightarrow> CreateOptions.width canvas \<le> 0 \<or> CreateOptions.height canvas \<le> 0
          | FromBuffer _ _ \<Rightarrow> False)
      then Some (Error ''Expected valid width, height and channels to create a new input image'')
      else case box_fault (resize_boxes (operations pipeline)) of
             Some e \<Rightarrow> Some e
           | None \<Rightarrow>
               if list_all (overlay_fits (output_size pipeline)) (overlays (operations pipeline))
               then None
               else Some (Error ''Image to composite must have same dimensions or smaller''))"

text \<open>The two pipelines of \<open>createPlaneFavicon\<close>, by name: that of the resize and that of the plane.\<close>

definition resize_pipeline :: "SourceImage \<Rightarrow> int \<Rightarrow> int \<Rightarrow> bool \<Rightarrow> sharp" where
  "resize_pipeline source width' height' pixelArt' =
     (if format (metadata source) = ''svg'' then
        Sharp (FromBuffer (data source) (Some (svgDensity (metadata source) width' height')))
          [Resize \<lparr>ResizeOptions.width = width', height = height', fit = ''contain'',
             background = ''#00000000'', kernel = None\<rparr>]
      else
        Sharp (FromBuffer (data source) None)
          [EnsureAlpha,
           Resize \<lparr>ResizeOptions.width = width', height = height', fit = ''contain'',
             background = ''#00000000'',
             kernel = Some
               (if pixelArt' \<and> width' \<ge> Metadata.width (metadata source)
                   \<and> height' \<ge> Metadata.height (metadata source)
                then ''nearest'' else ''lanczos3'')\<rparr>])"

definition plane_pipeline :: "IconPlaneOptions \<Rightarrow> buffer \<Rightarrow> bool \<Rightarrow> sharp" where
  "plane_pipeline options image' raw =
     Sharp
       (pipeline_input (createBlankImage (IconPlaneOptions.width options)
          (IconPlaneOptions.height options) (IconPlaneOptions.background options)))
       (operations (createBlankImage (IconPlaneOptions.width options)
           (IconPlaneOptions.height options) (IconPlaneOptions.background options))
        @ [Composite [Overlay image' (offset_px options) (offset_px options)]]
        @ (if IconPlaneOptions.rotate options then [Rotate 90] else [])
        @ (if raw then [ToColorspace ''srgb'', Raw ''uchar''] else [Png]))"

text \<open>Plane specifications used as concrete inputs.\<close>

definition opaque_plane :: IconPlaneOptions where
  "opaque_plane = \<lparr>IconPlaneOptions.width = 32, height = 32, offset = Some 10, pixelArt = True,
     background = Some ''#fff'', transparent = True, rotate = False\<rparr>"

definition turned_plane :: IconPlaneOptions where
  "turned_plane = \<lparr>IconPlaneOptions.width = 32, height = 24, offset = Some (25 / 2),
     pixelArt = False, background = None, transparent = True, rotate = True\<rparr>"

definition wide_plane :: IconPlaneOptions where
  "wide_plane = \<lparr>IconPlaneOptions.width = 750, height = 750, offset = Some (46 / 10),
     pixelArt = False, background = None, transparent = True, rotate = False\<rparr>"

definition half_plane :: IconPlaneOptions where
  "half_plane = \<lparr>IconPlaneOptions.width = 32, height = 32, offset = Some 50, pixelArt = False,
     background = None, transparent = True, rotate = False\<rparr>"




definition two_sizes :: IconOptions where
  "two_sizes = \<lparr>sizes = [\<lparr>IconSize.width = 16, height = 16\<rparr>, \<lparr>IconSize.width = 32, height = 32\<rparr>],
     offset = None, pixelArt = None, background = UndefinedValue,
     transparent = True, rotate = False\<rparr>"

text \<open>A file system and a decoder used as concrete inputs.\<close>

definition icon_file :: "string \<Rightarrow> error + buffer" where
  "icon_file path =
     (if path = ''icon.png'' then Inr (Bytes [137, 80, 78, 71])
      else if path = ''notes.txt'' then Inr (Bytes [104, 105])
      else Inl (Error ''ENOENT''))"

definition png_metadata :: "buffer \<Rightarrow> Metadata option" where
  "png_metadata buffer =
     (if buffer = Bytes [137, 80, 78, 71]
      then Some \<lparr>Metadata.width = 16, height = 16, format = ''png''\<rparr> else None)"

section \<open>Properties of the source selector\<close>

text \<open>
  The comparator loop decides the lexicographic order of the flattened keys: negative
  for less, zero for equal, positive for greater.
\<close>

lemma arrayComparator_loop_lex:
  "arrayComparator_loop aArr bArr i =
     (if drop i aArr < drop i bArr then - 1 else if drop i aArr = drop i bArr then 0 else 1)"
proof (induction aArr bArr i rule: arrayComparator_loop.induct)
  case (1 aArr bArr i)
  show ?case
  proof (cases "i < length aArr \<and> i < length bArr")
    case True
    then have a: "drop i aArr = aArr ! i # drop (Suc i) aArr"
      and b: "drop i bArr = bArr ! i # drop (Suc i) bArr"
      by (simp_all add: Cons_nth_drop_Suc)
    show ?thesis
    proof (cases "aArr ! i = bArr ! i")
      case same: True
      have "arrayComparator_loop aArr bArr i = arrayComparator_loop aArr bArr (i + 1)"
        using True same by (subst arrayComparator_loop.simps) (simp add: max_def)
      also have "\<dots> = (if drop (i + 1) aArr < drop (i + 1) bArr then - 1
                       else if drop (i + 1) aArr = drop (i + 1) bArr then 0 else 1)"
        using True same by (intro "1.IH") auto
      finally show ?thesis
        using same by (simp add: a b)
    next
      case False
      then show ?thesis
        using True by (subst arrayComparator_loop.simps) (auto simp: a b)
    qed
  next
    case False
    then show ?thesis
      by (subst arrayComparator_loop.simps) (auto simp: not_less)
  qed
qed

lemma arrayComparator_negative:
  "arrayComparator a b < 0 \<longleftrightarrow> flat_Infinity a < flat_Infinity b"
  by (simp add: arrayComparator_def arrayComparator_loop_lex)

lemma reduce_keeps_last_least:
  fixes key :: "'a \<Rightarrow> 'k::linorder"
  assumes cmp: "\<And>a b. comparator a b < (0::int) \<longleftrightarrow> key a < key b"
  shows "\<exists>before after.
           first # rest
             = before @ foldl (\<lambda>acc cur. if comparator acc cur < 0 then acc else cur) first rest # after
         \<and> (\<forall>c\<in>set before.
               key (foldl (\<lambda>acc cur. if comparator acc cur < 0 then acc else cur) first rest) \<le> key c)
         \<and> (\<forall>c\<in>set after.
               key (foldl (\<lambda>acc cur. if comparator acc cur < 0 then acc else cur) first rest) < key c)"
proof (induction rest rule: rev_induct)
  case Nil
  show ?case by (intro exI[of _ "[]"]) simp
next
  case (snoc cur rest)
  let ?step = "\<lambda>acc cur. if comparator acc cur < 0 then acc else cur"
  let ?acc = "foldl ?step first rest"
  from snoc obtain before after where split: "first # rest = before @ ?acc # after"
    and le: "\<forall>c\<in>set before. key ?acc \<le> key c" and less: "\<forall>c\<in>set after. key ?acc < key c"
    by blast
  show ?case
  proof (cases "key ?acc < key cur")
    case True
    then have "foldl ?step first (rest @ [cur]) = ?acc"
      by (simp add: cmp)
    moreover have "first # rest @ [cur] = before @ ?acc # (after @ [cur])"
      using split by simp
    ultimately show ?thesis
      using le less True by (intro exI[of _ before] exI[of _ "after @ [cur]"]) auto
  next
    case False
    then have res: "foldl ?step first (rest @ [cur]) = cur"
      by (simp add: cmp)
    have "first # rest @ [cur] = (first # rest) @ cur # []"
      by simp
    moreover have "\<forall>c\<in>set (first # rest). key cur \<le> key c"
    proof
      fix c assume "c \<in> set (first # rest)"
      then have "c \<in> set before \<or> c = ?acc \<or> c \<in> set after"
        unfolding split by auto
      then have "key ?acc \<le> key c"
        using le less by auto
      then show "key cur \<le> key c"
        using False by simp
    qed
    ultimately show ?thesis
      unfolding res by (intro exI[of _ "first # rest"] exI[of _ "[]"]) simp
  qed
qed

lemma triple_less:
  "([a, b, c] < [a', b', c']) = ranks_before (a, b, c) (a', b', (c'::int))"
  by auto

lemma triple_le:
  "([a, b, c] \<le> [a', b', c']) = ranks_not_after (a, b, c) (a', b', (c'::int))"
  by (auto simp: ranks_not_after_def list_le_def)

lemma selection_key_flat:
  "flat_Infinity (selection_key side icon)
     = [format_class icon, scale_direction icon side, size_distance icon side]"
  by (simp add: selection_key_def format_class_def scale_direction_def size_distance_def
      larger_side_def Let_def)

lemma selection_key_le:
  "flat_Infinity (selection_key side a) \<le> flat_Infinity (selection_key side b)
     \<longleftrightarrow> ranks_not_after (ranking a side) (ranking b side)"
  by (simp only: selection_key_flat triple_le ranking_def)

lemma selection_key_less:
  "flat_Infinity (selection_key side a) < flat_Infinity (selection_key side b)
     \<longleftrightarrow> ranks_before (ranking a side) (ranking b side)"
  by (simp only: selection_key_flat triple_less ranking_def)

lemma bestSource_reduce:
  "bestSource (first # rest) w h
     = Inr (foldl (\<lambda>acc cur.
          if arrayComparator (selection_key (max w h) acc) (selection_key (max w h) cur) < 0
          then acc else cur) first rest)"
  by (simp add: bestSource_def minByKey_def minBy_def selection_key_def Let_def)

lemma bestSource_last_least:
  assumes "sourceset \<noteq> []"
  shows "\<exists>before best after.
           sourceset = before @ best # after
         \<and> bestSource sourceset w h = Inr best
         \<and> (\<forall>c\<in>set before. flat_Infinity (selection_key (max w h) best)
                                \<le> flat_Infinity (selection_key (max w h) c))
         \<and> (\<forall>c\<in>set after. flat_Infinity (selection_key (max w h) best)
                               < flat_Infinity (selection_key (max w h) c))"
proof -
  from assms obtain first rest where sourceset: "sourceset = first # rest"
    by (cases sourceset) auto
  let ?key = "\<lambda>icon. flat_Infinity (selection_key (max w h) icon)"
  let ?cmp = "\<lambda>a b. arrayComparator (selection_key (max w h) a) (selection_key (max w h) b)"
  let ?best = "foldl (\<lambda>acc cur. if ?cmp acc cur < 0 then acc else cur) first rest"
  have "\<And>a b. ?cmp a b < 0 \<longleftrightarrow> ?key a < ?key b"
    by (rule arrayComparator_negative)
  from reduce_keeps_last_least [of ?cmp ?key first rest, OF this]
  obtain before after where split: "first # rest = before @ ?best # after"
    and le: "\<forall>c\<in>set before. ?key ?best \<le> ?key c"
    and less: "\<forall>c\<in>set after. ?key ?best < ?key c"
    by blast
  have "bestSource sourceset w h = Inr ?best"
    unfolding sourceset by (rule bestSource_reduce)
  then show ?thesis
    using split le less unfolding sourceset by blast
qed

text \<open>
  C1, as stated: among candidates tied on all three criteria the selector returns the
  first in input order. It does not: the reduce keeps the accumulator only when it
  compares strictly less, so of two tied sources the later one is returned.
\<close>

theorem bestSource_tie_first_counterexample:
  "ranking (raster16 1) 16 = ranking (raster16 2) 16
   \<and> raster16 1 \<noteq> raster16 2
   \<and> bestSource [raster16 1, raster16 2] 16 16 = Inr (raster16 2)"
  by (simp add: bestSource_reduce arrayComparator_def arrayComparator_loop_lex selection_key_flat
      ranking_def format_class_def scale_direction_def size_distance_def larger_side_def
      raster16_def)

text \<open>
  C1, amended: for a non-empty source list the selector returns the last candidate, in
  input order, among those tied at the minimal ranking: every candidate before the
  returned one ranks no better, every candidate after it ranks strictly worse.
\<close>

theorem bestSource_tie_last:
  assumes "sourceset \<noteq> []"
  shows "\<exists>before best after.
           sourceset = before @ best # after
         \<and> bestSource sourceset w h = Inr best
         \<and> (\<forall>c\<in>set before. ranks_not_after (ranking best (max w h)) (ranking c (max w h)))
         \<and> (\<forall>c\<in>set after. ranks_before (ranking best (max w h)) (ranking c (max w h)))"
proof -
  from bestSource_last_least [OF assms, of w h]
  obtain before best after where split: "sourceset = before @ best # after"
    and best: "bestSource sourceset w h = Inr best"
    and le: "\<forall>c\<in>set before. flat_Infinity (selection_key (max w h) best)
                                \<le> flat_Infinity (selection_key (max w h) c)"
    and less: "\<forall>c\<in>set after. flat_Infinity (selection_key (max w h) best)
                               < flat_Infinity (selection_key (max w h) c)"
    by blast
  have "\<forall>c\<in>set before. ranks_not_after (ranking best (max w h)) (ranking c (max w h))"
    using le by (simp only: selection_key_le)
  moreover have "\<forall>c\<in>set after. ranks_before (ranking best (max w h)) (ranking c (max w h))"
    using less by (simp only: selection_key_less)
  ultimately show ?thesis
    using split best by blast
qed

theorem bestSource_tie_last_witness:
  "[raster16 1, raster16 2] \<noteq> []
   \<and> (\<exists>before best after.
           [raster16 1, raster16 2] = before @ best # after
         \<and> bestSource [raster16 1, raster16 2] 16 16 = Inr best
         \<and> (\<forall>c\<in>set before. ranks_not_after (ranking best (max 16 16)) (ranking c (max 16 16)))
         \<and> (\<forall>c\<in>set after. ranks_before (ranking best (max 16 16)) (ranking c (max 16 16))))"
proof
  show nonempty: "[raster16 1, raster16 2] \<noteq> []"
    by simp
  show "\<exists>before best after.
           [raster16 1, raster16 2] = before @ best # after
         \<and> bestSource [raster16 1, raster16 2] 16 16 = Inr best
         \<and> (\<forall>c\<in>set before. ranks_not_after (ranking best (max 16 16)) (ranking c (max 16 16)))
         \<and> (\<forall>c\<in>set after. ranks_before (ranking best (max 16 16)) (ranking c (max 16 16)))"
    by (rule bestSource_tie_last [OF nonempty])
qed

text \<open>
  C4: for every non-empty source list and target size the selector returns a candidate
  of the list that is minimal in the lexicographic order on (format class, scale
  direction, size distance). The selection is a function of its arguments, and when
  the list holds a vector source the selected one is a vector source.
\<close>

theorem bestSource_minimal:
  assumes "sourceset \<noteq> []"
  shows "\<exists>best. bestSource sourceset w h = Inr best \<and> best \<in> set sourceset
         \<and> (\<forall>c\<in>set sourceset. ranks_not_after (ranking best (max w h)) (ranking c (max w h)))
         \<and> ((\<exists>c\<in>set sourceset. format (metadata c) = ''svg'') \<longrightarrow> format (metadata best) = ''svg'')"
proof -
  from bestSource_last_least [OF assms, of w h]
  obtain before best after where split: "sourceset = before @ best # after"
    and best: "bestSource sourceset w h = Inr best"
    and le_key: "\<forall>c\<in>set before. flat_Infinity (selection_key (max w h) best)
                                \<le> flat_Infinity (selection_key (max w h) c)"
    and less_key: "\<forall>c\<in>set after. flat_Infinity (selection_key (max w h) best)
                               < flat_Infinity (selection_key (max w h) c)"
    by blast
  have le: "\<forall>c\<in>set before. ranks_not_after (ranking best (max w h)) (ranking c (max w h))"
    using le_key by (simp only: selection_key_le)
  have less: "\<forall>c\<in>set after. ranks_before (ranking best (max w h)) (ranking c (max w h))"
    using less_key by (simp only: selection_key_less)
  have all: "\<forall>c\<in>set sourceset. ranks_not_after (ranking best (max w h)) (ranking c (max w h))"
    using le less unfolding split by (auto simp: ranks_not_after_def)
  have "format (metadata best) = ''svg''" if "c \<in> set sourceset" "format (metadata c) = ''svg''" for c
  proof -
    have "ranks_not_after (ranking best (max w h)) (ranking c (max w h))"
      using all that(1) by blast
    then have "format_class best \<le> format_class c"
      by (auto simp: ranks_not_after_def ranking_def)
    then show ?thesis
      using that(2) by (simp add: format_class_def split: if_splits)
  qed
  then show ?thesis
    using best all split by auto
qed

theorem bestSource_minimal_witness:
  "[raster16 1, vector4, raster16 2] \<noteq> []
   \<and> (\<exists>best. bestSource [raster16 1, vector4, raster16 2] 16 16 = Inr best
         \<and> best \<in> set [raster16 1, vector4, raster16 2]
         \<and> (\<forall>c\<in>set [raster16 1, vector4, raster16 2].
               ranks_not_after (ranking best (max 16 16)) (ranking c (max 16 16)))
         \<and> ((\<exists>c\<in>set [raster16 1, vector4, raster16 2]. format (metadata c) = ''svg'')
               \<longrightarrow> format (metadata best) = ''svg''))"
proof
  show nonempty: "[raster16 1, vector4, raster16 2] \<noteq> []"
    by simp
  show "\<exists>best. bestSource [raster16 1, vector4, raster16 2] 16 16 = Inr best
         \<and> best \<in> set [raster16 1, vector4, raster16 2]
         \<and> (\<forall>c\<in>set [raster16 1, vector4, raster16 2].
               ranks_not_after (ranking best (max 16 16)) (ranking c (max 16 16)))
         \<and> ((\<exists>c\<in>set [raster16 1, vector4, raster16 2]. format (metadata c) = ''svg'')
               \<longrightarrow> format (metadata best) = ''svg'')"
    by (rule bestSource_minimal [OF nonempty])
qed

text \<open>
  C10: on an empty source list the selector throws (the reduce has no initial value and
  no element), and on every non-empty list it returns an element of the list.
\<close>

theorem bestSource_total:
  "bestSource [] w h = Inl (TypeError ''Reduce of empty array with no initial value'')
   \<and> (sourceset \<noteq> [] \<longrightarrow> (\<exists>best. bestSource sourceset w h = Inr best \<and> best \<in> set sourceset))"
proof (intro conjI impI)
  show "bestSource [] w h = Inl (TypeError ''Reduce of empty array with no initial value'')"
    by (simp add: bestSource_def minByKey_def minBy_def)
next
  assume "sourceset \<noteq> []"
  from bestSource_last_least [OF this, of w h]
  show "\<exists>best. bestSource sourceset w h = Inr best \<and> best \<in> set sourceset"
    by auto
qed

theorem bestSource_total_witness:
  "bestSource [] 16 16 = Inl (TypeError ''Reduce of empty array with no initial value'')
   \<and> [vector4] \<noteq> []
   \<and> (\<exists>best. bestSource [vector4] 16 16 = Inr best \<and> best \<in> set [vector4])"
  using bestSource_total [of 16 16 "[vector4]"] by simp

section \<open>Properties of the plane renderer\<close>

text \<open>
  The renderer is read off the pipelines it hands to the engine. Whether a plane is
  rendered at all is the engine's answer to these pipelines, so what is said of a plane
  is said of every plane that is rendered, for every engine.
\<close>

lemma chain_eq: "chain s op = Sharp (pipeline_input s) (operations s @ [op])"
  by (cases s) simp

lemma offset_px_code:
  "(case IconPlaneOptions.offset options of
      None \<Rightarrow> 0
    | Some percent \<Rightarrow>
        (let rounded = Math_round
               (double_divide
                  (double_times
                     (of_int (max (IconPlaneOptions.width options)
                        (IconPlaneOptions.height options)))
                     (to_double percent))
                  100)
         in if rounded = 0 then 0 else rounded)) = offset_px options"
  by (simp add: offset_px_def Let_def split: option.splits)

lemma resize_eq:
  "resize engine source w h pixelArt' = toBuffer engine (resize_pipeline source w h pixelArt')"
  by (simp add: resize_def resize_pipeline_def Let_def)

lemma createBlankImage_cases:
  "createBlankImage w h bg =
     (if bg = None \<or> bg = Some [] \<or> bg = Some ''transparent''
      then Sharp (Create \<lparr>CreateOptions.width = w, height = h, channels = 4,
                    background = ''#00000000''\<rparr>) [EnsureAlpha]
      else Sharp (Create \<lparr>CreateOptions.width = w, height = h, channels = 3,
                    background = the bg\<rparr>) [])"
  by (simp add: createBlankImage_def Let_def)

lemma createPlaneFavicon_eq:
  "createPlaneFavicon engine sourceset options name' raw =
     (case bestSource sourceset (IconPlaneOptions.width options - offset_px options * 2)
             (IconPlaneOptions.height options - offset_px options * 2) of
        Inl e \<Rightarrow> Inl [e]
      | Inr source \<Rightarrow>
          (case engine (resize_pipeline source
                   (IconPlaneOptions.width options - offset_px options * 2)
                   (IconPlaneOptions.height options - offset_px options * 2)
                   (IconPlaneOptions.pixelArt options)) of
             Some e \<Rightarrow> Inl [e]
           | None \<Rightarrow>
               (case engine (plane_pipeline options
                        (Rendered (resize_pipeline source
                           (IconPlaneOptions.width options - offset_px options * 2)
                           (IconPlaneOptions.height options - offset_px options * 2)
                           (IconPlaneOptions.pixelArt options))) raw) of
                  Some e \<Rightarrow> Inl [e]
                | None \<Rightarrow>
                    Inr \<lparr>name = name', contents =
                      (if raw
                       then RawImage (plane_pipeline options
                         (Rendered (resize_pipeline source
                            (IconPlaneOptions.width options - offset_px options * 2)
                            (IconPlaneOptions.height options - offset_px options * 2)
                            (IconPlaneOptions.pixelArt options))) raw)
                       else Buffer (Rendered (plane_pipeline options
                         (Rendered (resize_pipeline source
                            (IconPlaneOptions.width options - offset_px options * 2)
                            (IconPlaneOptions.height options - offset_px options * 2)
                            (IconPlaneOptions.pixelArt options))) raw)))\<rparr>)))"
  unfolding createPlaneFavicon_def offset_px_code
  by (simp add: Let_def resize_eq toBuffer_def toBuffer_resolveWithObject_def plane_pipeline_def
      chain_eq split: sum.splits option.splits)

lemma createPlaneFavicon_fulfilled:
  assumes "createPlaneFavicon engine sourceset options name' raw = Inr artifact"
  obtains source where
    "bestSource sourceset (IconPlaneOptions.width options - offset_px options * 2)
       (IconPlaneOptions.height options - offset_px options * 2) = Inr source"
    and "engine (resize_pipeline source
           (IconPlaneOptions.width options - offset_px options * 2)
           (IconPlaneOptions.height options - offset_px options * 2)
           (IconPlaneOptions.pixelArt options)) = None"
    and "engine (plane_pipeline options
           (Rendered (resize_pipeline source
              (IconPlaneOptions.width options - offset_px options * 2)
              (IconPlaneOptions.height options - offset_px options * 2)
              (IconPlaneOptions.pixelArt options))) raw) = None"
    and "artifact = \<lparr>name = name', contents =
           (if raw
            then RawImage (plane_pipeline options
              (Rendered (resize_pipeline source
                 (IconPlaneOptions.width options - offset_px options * 2)
                 (IconPlaneOptions.height options - offset_px options * 2)
                 (IconPlaneOptions.pixelArt options))) raw)
            else Buffer (Rendered (plane_pipeline options
              (Rendered (resize_pipeline source
                 (IconPlaneOptions.width options - offset_px options * 2)
                 (IconPlaneOptions.height options - offset_px options * 2)
                 (IconPlaneOptions.pixelArt options))) raw)))\<rparr>"
  using assms unfolding createPlaneFavicon_eq
  by (auto split: sum.splits option.splits)

lemma overlays_append: "overlays (ops @ ops') = overlays ops @ overlays ops'"
  by (induction ops rule: overlays.induct) simp_all

lemma resize_boxes_append: "resize_boxes (ops @ ops') = resize_boxes ops @ resize_boxes ops'"
  by (induction ops rule: resize_boxes.induct) simp_all

lemma rotations_append: "rotations (ops @ ops') = rotations ops @ rotations ops'"
  by (induction ops rule: rotations.induct) simp_all

lemma overlays_plane_pipeline:
  "overlays (operations (plane_pipeline options image' raw))
     = [Overlay image' (offset_px options) (offset_px options)]"
  by (simp add: plane_pipeline_def createBlankImage_cases overlays_append)

lemma output_size_plane_pipeline:
  "output_size (plane_pipeline options image' raw)
     = Some (if IconPlaneOptions.rotate options
             then (IconPlaneOptions.height options, IconPlaneOptions.width options)
             else (IconPlaneOptions.width options, IconPlaneOptions.height options))"
  by (simp add: output_size_def plane_pipeline_def createBlankImage_cases resize_boxes_append
      rotations_append)

lemma resize_pipeline_box:
  "\<exists>density box. pipeline_input (resize_pipeline source w h pixelArt') = FromBuffer (data source) density
     \<and> resize_boxes (operations (resize_pipeline source w h pixelArt')) = [box]
     \<and> ResizeOptions.width box = w \<and> ResizeOptions.height box = h \<and> fit box = ''contain''"
  by (simp add: resize_pipeline_def)

text \<open>
  The pixel offsets of the example planes, in double arithmetic. With 4.6 percent of a
  side of 750 pixels the double quotient lies just below 34.5 and the offset is 34, where
  the exact quotient is 34.5 and would round to 35.
\<close>

lemma floor_numeral_div_rat: "\<lfloor>numeral a / numeral b :: rat\<rfloor> = numeral a div numeral b"
  using floor_divide_of_int_eq [of "numeral a" "numeral b", where ?'a = rat] by simp

lemmas double_eval = to_double_def double_times_def double_divide_def exponent_def pow2_def
  round_half_even_def Math_round_def compute_bitlen Let_def floor_numeral_div_rat

lemma offset_px_opaque_plane: "offset_px opaque_plane = 3"
  by (simp add: offset_px_def opaque_plane_def double_eval)

lemma offset_px_turned_plane: "offset_px turned_plane = 4"
  by (simp add: offset_px_def turned_plane_def double_eval)

lemma offset_px_wide_plane: "offset_px wide_plane = 34"
  by (simp add: offset_px_def wide_plane_def double_eval)

lemma offset_px_half_plane: "offset_px half_plane = 16"
  by (simp add: offset_px_def half_plane_def double_eval)

lemma double_rounding_matters:
  "Math_round (double_divide (double_times 500 (to_double (7 / 10))) 100) = 4
   \<and> Math_round (500 * to_double (7 / 10) / 100) = 3
   \<and> Math_round (double_divide (double_times 750 (to_double (46 / 10))) 100) = 34"
  by (simp add: double_eval)

lemma opaque_plane_fields:
  "IconPlaneOptions.width opaque_plane = 32" "IconPlaneOptions.height opaque_plane = 32"
  "IconPlaneOptions.pixelArt opaque_plane" "IconPlaneOptions.background opaque_plane = Some ''#fff''"
  "\<not> IconPlaneOptions.rotate opaque_plane" "IconPlaneOptions.transparent opaque_plane"
  by (simp_all add: opaque_plane_def)

lemma turned_plane_fields:
  "IconPlaneOptions.width turned_plane = 32" "IconPlaneOptions.height turned_plane = 24"
  "\<not> IconPlaneOptions.pixelArt turned_plane" "IconPlaneOptions.background turned_plane = None"
  "IconPlaneOptions.rotate turned_plane"
  by (simp_all add: turned_plane_def)

lemma wide_plane_fields:
  "IconPlaneOptions.width wide_plane = 750" "IconPlaneOptions.height wide_plane = 750"
  "\<not> IconPlaneOptions.pixelArt wide_plane" "IconPlaneOptions.background wide_plane = None"
  "\<not> IconPlaneOptions.rotate wide_plane"
  by (simp_all add: wide_plane_def)

lemma half_plane_fields:
  "IconPlaneOptions.width half_plane = 32" "IconPlaneOptions.height half_plane = 32"
  "\<not> IconPlaneOptions.pixelArt half_plane" "IconPlaneOptions.background half_plane = None"
  "\<not> IconPlaneOptions.rotate half_plane"
  by (simp_all add: half_plane_def)

lemma bestSource_single: "bestSource [source] w h = Inr source"
  by (simp add: bestSource_reduce)

lemma createPlaneFavicon_rendered:
  assumes "bestSource sourceset (IconPlaneOptions.width options - offset_px options * 2)
             (IconPlaneOptions.height options - offset_px options * 2) = Inr source"
    and "engine (resize_pipeline source
           (IconPlaneOptions.width options - offset_px options * 2)
           (IconPlaneOptions.height options - offset_px options * 2)
           (IconPlaneOptions.pixelArt options)) = None"
    and "engine (plane_pipeline options
           (Rendered (resize_pipeline source
              (IconPlaneOptions.width options - offset_px options * 2)
              (IconPlaneOptions.height options - offset_px options * 2)
              (IconPlaneOptions.pixelArt options))) raw) = None"
  shows "createPlaneFavicon engine sourceset options name' raw
     = Inr \<lparr>name = name', contents =
         (if raw
          then RawImage (plane_pipeline options
            (Rendered (resize_pipeline source
               (IconPlaneOptions.width options - offset_px options * 2)
               (IconPlaneOptions.height options - offset_px options * 2)
               (IconPlaneOptions.pixelArt options))) raw)
          else Buffer (Rendered (plane_pipeline options
            (Rendered (resize_pipeline source
               (IconPlaneOptions.width options - offset_px options * 2)
               (IconPlaneOptions.height options - offset_px options * 2)
               (IconPlaneOptions.pixelArt options))) raw)))\<rparr>"
  using assms by (simp add: createPlaneFavicon_eq)

lemma createPlaneFavicon_rejected:
  assumes "bestSource sourceset (IconPlaneOptions.width options - offset_px options * 2)
             (IconPlaneOptions.height options - offset_px options * 2) = Inr source"
    and "engine (resize_pipeline source
           (IconPlaneOptions.width options - offset_px options * 2)
           (IconPlaneOptions.height options - offset_px options * 2)
           (IconPlaneOptions.pixelArt options)) = Some e"
  shows "createPlaneFavicon engine sourceset options name' raw = Inl [e]"
  using assms by (simp add: createPlaneFavicon_eq)

lemma validating_engine_resize_pipeline:
  "validating_engine (resize_pipeline source w h pixelArt')
     = (if w \<le> 0
        then Some (Error (''Expected positive integer for width but received ''
               @ string_of_number w @ '' of type number''))
        else if h \<le> 0
        then Some (Error (''Expected positive integer for height but received ''
               @ string_of_number h @ '' of type number''))
        else None)"
  by (simp add: validating_engine_def resize_pipeline_def)

lemma output_size_resize_pipeline:
  "output_size (resize_pipeline source w h pixelArt') = Some (w, h)"
  by (simp add: output_size_def resize_pipeline_def)

lemma validating_engine_plane_pipeline:
  "validating_engine (plane_pipeline options (Rendered (resize_pipeline source w h pixelArt')) raw)
     = (if IconPlaneOptions.width options \<le> 0 \<or> IconPlaneOptions.height options \<le> 0
        then Some (Error ''Expected valid width, height and channels to create a new input image'')
        else if (if IconPlaneOptions.rotate options
                 then w \<le> IconPlaneOptions.height options \<and> h \<le> IconPlaneOptions.width options
                 else w \<le> IconPlaneOptions.width options \<and> h \<le> IconPlaneOptions.height options)
        then None
        else Some (Error ''Image to composite must have same dimensions or smaller''))"
proof -
  have "pipeline_input (plane_pipeline options image' raw)
      = Create \<lparr>CreateOptions.width = IconPlaneOptions.width options,
          height = IconPlaneOptions.height options,
          channels = (if IconPlaneOptions.background options = None
              \<or> IconPlaneOptions.background options = Some []
              \<or> IconPlaneOptions.background options = Some ''transparent'' then 4 else 3),
          background = (if IconPlaneOptions.background options = None
              \<or> IconPlaneOptions.background options = Some []
              \<or> IconPlaneOptions.background options = Some ''transparent'' then ''#00000000''
            else the (IconPlaneOptions.background options))\<rparr>" for image'
    by (simp add: plane_pipeline_def createBlankImage_cases)
  moreover have "resize_boxes (operations (plane_pipeline options image' raw)) = []" for image'
    by (simp add: plane_pipeline_def createBlankImage_cases resize_boxes_append)
  ultimately show ?thesis
    by (simp add: validating_engine_def overlays_plane_pipeline output_size_plane_pipeline
        output_size_resize_pipeline)
qed

lemma createPlaneFavicon_opaque_plane:
  "createPlaneFavicon validating_engine [raster16 2] opaque_plane ''icon.png'' raw
     = Inr \<lparr>name = ''icon.png'', contents =
         (if raw
          then RawImage (plane_pipeline opaque_plane
                 (Rendered (resize_pipeline (raster16 2) 26 26 True)) raw)
          else Buffer (Rendered (plane_pipeline opaque_plane
                 (Rendered (resize_pipeline (raster16 2) 26 26 True)) raw)))\<rparr>"
  using createPlaneFavicon_rendered [of "[raster16 2]" opaque_plane "raster16 2"
      validating_engine raw "''icon.png''"]
  by (simp add: bestSource_single validating_engine_resize_pipeline
      validating_engine_plane_pipeline offset_px_opaque_plane opaque_plane_fields)

lemma createPlaneFavicon_turned_plane:
  "createPlaneFavicon validating_engine [raster16 2] turned_plane ''icon.png'' raw
     = Inr \<lparr>name = ''icon.png'', contents =
         (if raw
          then RawImage (plane_pipeline turned_plane
                 (Rendered (resize_pipeline (raster16 2) 24 16 False)) raw)
          else Buffer (Rendered (plane_pipeline turned_plane
                 (Rendered (resize_pipeline (raster16 2) 24 16 False)) raw)))\<rparr>"
  using createPlaneFavicon_rendered [of "[raster16 2]" turned_plane "raster16 2"
      validating_engine raw "''icon.png''"]
  by (simp add: bestSource_single validating_engine_resize_pipeline
      validating_engine_plane_pipeline offset_px_turned_plane turned_plane_fields)

lemma createPlaneFavicon_wide_plane:
  "createPlaneFavicon validating_engine [raster16 2] wide_plane ''icon.png'' raw
     = Inr \<lparr>name = ''icon.png'', contents =
         (if raw
          then RawImage (plane_pipeline wide_plane
                 (Rendered (resize_pipeline (raster16 2) 682 682 False)) raw)
          else Buffer (Rendered (plane_pipeline wide_plane
                 (Rendered (resize_pipeline (raster16 2) 682 682 False)) raw)))\<rparr>"
  using createPlaneFavicon_rendered [of "[raster16 2]" wide_plane "raster16 2"
      validating_engine raw "''icon.png''"]
  by (simp add: bestSource_single validating_engine_resize_pipeline
      validating_engine_plane_pipeline offset_px_wide_plane wide_plane_fields)

lemma string_of_number_0: "string_of_number 0 = ''0''"
  by code_simp

lemma createPlaneFavicon_half_plane:
  "createPlaneFavicon validating_engine [raster16 2] half_plane ''icon.png'' raw
     = Inl [Error ''Expected positive integer for width but received 0 of type number'']"
  using createPlaneFavicon_rejected [of "[raster16 2]" half_plane "raster16 2"
      validating_engine "Error ''Expected positive integer for width but received 0 of type number''"
      "''icon.png''" raw]
  by (simp add: bestSource_single validating_engine_resize_pipeline
      offset_px_half_plane half_plane_fields string_of_number_0)

text \<open>
  C6: for a raster source, resize has the engine render one pipeline over the data of
  the source: an alpha channel is ensured, then the image is resized to the box asked
  for with the contain fit over the background \<open>#00000000\<close>. The kernel is nearest
  exactly when the pixelArt flag is set and both target dimensions are at least those of
  the source; in every other case it is lanczos3.
\<close>

theorem resize_raster:
  assumes "format (metadata source) \<noteq> ''svg''"
  shows "\<exists>box. resize engine source w h pixelArt'
             = toBuffer engine (Sharp (FromBuffer (data source) None) [EnsureAlpha, Resize box])
         \<and> ResizeOptions.width box = w \<and> ResizeOptions.height box = h
         \<and> fit box = ''contain'' \<and> ResizeOptions.background box = ''#00000000''
         \<and> (kernel box = Some ''nearest''
              \<longleftrightarrow> pixelArt' \<and> w \<ge> Metadata.width (metadata source)
                    \<and> h \<ge> Metadata.height (metadata source))
         \<and> (kernel box = Some ''lanczos3''
              \<longleftrightarrow> \<not> (pixelArt' \<and> w \<ge> Metadata.width (metadata source)
                       \<and> h \<ge> Metadata.height (metadata source)))"
proof -
  let ?box = "\<lparr>ResizeOptions.width = w, height = h, fit = ''contain'',
      background = ''#00000000'',
      kernel = Some
        (if pixelArt' \<and> w \<ge> Metadata.width (metadata source)
            \<and> h \<ge> Metadata.height (metadata source)
         then ''nearest'' else ''lanczos3'')\<rparr>"
  have "resize engine source w h pixelArt'
      = toBuffer engine (Sharp (FromBuffer (data source) None) [EnsureAlpha, Resize ?box])"
    using assms by (simp add: resize_def)
  then show ?thesis
    by (intro exI [of _ ?box]) simp
qed

theorem resize_raster_witness:
  "format (metadata (raster16 2)) \<noteq> ''svg''
   \<and> (\<exists>box. resize validating_engine (raster16 2) 32 32 True
             = toBuffer validating_engine
                 (Sharp (FromBuffer (data (raster16 2)) None) [EnsureAlpha, Resize box])
         \<and> ResizeOptions.width box = 32 \<and> ResizeOptions.height box = 32
         \<and> fit box = ''contain'' \<and> ResizeOptions.background box = ''#00000000''
         \<and> (kernel box = Some ''nearest''
              \<longleftrightarrow> True \<and> 32 \<ge> Metadata.width (metadata (raster16 2))
                    \<and> 32 \<ge> Metadata.height (metadata (raster16 2)))
         \<and> (kernel box = Some ''lanczos3''
              \<longleftrightarrow> \<not> (True \<and> 32 \<ge> Metadata.width (metadata (raster16 2))
                       \<and> 32 \<ge> Metadata.height (metadata (raster16 2)))))"
proof
  show hyp: "format (metadata (raster16 2)) \<noteq> ''svg''"
    by (simp add: raster16_def)
  show "\<exists>box. resize validating_engine (raster16 2) 32 32 True
             = toBuffer validating_engine
                 (Sharp (FromBuffer (data (raster16 2)) None) [EnsureAlpha, Resize box])
         \<and> ResizeOptions.width box = 32 \<and> ResizeOptions.height box = 32
         \<and> fit box = ''contain'' \<and> ResizeOptions.background box = ''#00000000''
         \<and> (kernel box = Some ''nearest''
              \<longleftrightarrow> True \<and> 32 \<ge> Metadata.width (metadata (raster16 2))
                    \<and> 32 \<ge> Metadata.height (metadata (raster16 2)))
         \<and> (kernel box = Some ''lanczos3''
              \<longleftrightarrow> \<not> (True \<and> 32 \<ge> Metadata.width (metadata (raster16 2))
                       \<and> 32 \<ge> Metadata.height (metadata (raster16 2))))"
    by (rule resize_raster [OF hyp])
qed

text \<open>
  C7: whenever createPlaneFavicon renders a plane, the pipeline it was rendered from
  composites exactly one image, at left and top equal to the pixel offset: the rounded
  share of the larger target side, computed in doubles, and 0 for an absent offset. That
  image is rendered from the source the selector chooses for the inner dimensions, width
  minus twice the offset by height minus twice the offset, resized once, with the
  contain fit, to the box of exactly these inner dimensions.
\<close>

theorem createPlaneFavicon_offset:
  assumes "createPlaneFavicon engine sourceset options name' raw = Inr artifact"
  shows "\<exists>source pipeline resizing box density.
           bestSource sourceset (IconPlaneOptions.width options - 2 * offset_px options)
             (IconPlaneOptions.height options - 2 * offset_px options) = Inr source
         \<and> rendered_by (contents artifact) = Some pipeline
         \<and> overlays (operations pipeline)
             = [Overlay (Rendered resizing) (offset_px options) (offset_px options)]
         \<and> pipeline_input resizing = FromBuffer (data source) density
         \<and> resize_boxes (operations resizing) = [box]
         \<and> ResizeOptions.width box = IconPlaneOptions.width options - 2 * offset_px options
         \<and> ResizeOptions.height box = IconPlaneOptions.height options - 2 * offset_px options
         \<and> fit box = ''contain''"
proof -
  from assms obtain source where source:
      "bestSource sourceset (IconPlaneOptions.width options - offset_px options * 2)
         (IconPlaneOptions.height options - offset_px options * 2) = Inr source"
    and artifact: "artifact = \<lparr>name = name', contents =
           (if raw
            then RawImage (plane_pipeline options
              (Rendered (resize_pipeline source
                 (IconPlaneOptions.width options - offset_px options * 2)
                 (IconPlaneOptions.height options - offset_px options * 2)
                 (IconPlaneOptions.pixelArt options))) raw)
            else Buffer (Rendered (plane_pipeline options
              (Rendered (resize_pipeline source
                 (IconPlaneOptions.width options - offset_px options * 2)
                 (IconPlaneOptions.height options - offset_px options * 2)
                 (IconPlaneOptions.pixelArt options))) raw)))\<rparr>"
    by (rule createPlaneFavicon_fulfilled)
  let ?resizing = "resize_pipeline source
      (IconPlaneOptions.width options - offset_px options * 2)
      (IconPlaneOptions.height options - offset_px options * 2)
      (IconPlaneOptions.pixelArt options)"
  let ?plane = "plane_pipeline options (Rendered ?resizing) raw"
  from resize_pipeline_box [of source
      "IconPlaneOptions.width options - offset_px options * 2"
      "IconPlaneOptions.height options - offset_px options * 2"
      "IconPlaneOptions.pixelArt options"]
  obtain density box where "pipeline_input ?resizing = FromBuffer (data source) density"
    and "resize_boxes (operations ?resizing) = [box]"
    and "ResizeOptions.width box = IconPlaneOptions.width options - offset_px options * 2"
    and "ResizeOptions.height box = IconPlaneOptions.height options - offset_px options * 2"
    and "fit box = ''contain''"
    by blast
  moreover have "rendered_by (contents artifact) = Some ?plane"
    by (simp add: artifact)
  moreover have "overlays (operations ?plane)
      = [Overlay (Rendered ?resizing) (offset_px options) (offset_px options)]"
    by (rule overlays_plane_pipeline)
  ultimately show ?thesis
    using source by (auto simp: mult.commute)
qed

theorem createPlaneFavicon_offset_witness:
  "createPlaneFavicon validating_engine [raster16 2] wide_plane ''icon.png'' True
     = Inr \<lparr>name = ''icon.png'', contents = RawImage (plane_pipeline wide_plane
            (Rendered (resize_pipeline (raster16 2) 682 682 False)) True)\<rparr>
   \<and> offset_px wide_plane = 34
   \<and> (\<exists>source pipeline resizing box density.
           bestSource [raster16 2] (IconPlaneOptions.width wide_plane - 2 * offset_px wide_plane)
             (IconPlaneOptions.height wide_plane - 2 * offset_px wide_plane) = Inr source
         \<and> rendered_by (contents (\<lparr>name = ''icon.png'', contents = RawImage (plane_pipeline wide_plane
            (Rendered (resize_pipeline (raster16 2) 682 682 False)) True)\<rparr>)) = Some pipeline
         \<and> overlays (operations pipeline)
             = [Overlay (Rendered resizing) (offset_px wide_plane) (offset_px wide_plane)]
         \<and> pipeline_input resizing = FromBuffer (data source) density
         \<and> resize_boxes (operations resizing) = [box]
         \<and> ResizeOptions.width box = IconPlaneOptions.width wide_plane - 2 * offset_px wide_plane
         \<and> ResizeOptions.height box = IconPlaneOptions.height wide_plane - 2 * offset_px wide_plane
         \<and> fit box = ''contain'')"
proof (intro conjI)
  show hyp: "createPlaneFavicon validating_engine [raster16 2] wide_plane ''icon.png'' True
     = Inr \<lparr>name = ''icon.png'', contents = RawImage (plane_pipeline wide_plane
            (Rendered (resize_pipeline (raster16 2) 682 682 False)) True)\<rparr>"
    using createPlaneFavicon_wide_plane [of True] by simp
  show "offset_px wide_plane = 34"
    by (rule offset_px_wide_plane)
  show "\<exists>source pipeline resizing box density.
           bestSource [raster16 2] (IconPlaneOptions.width wide_plane - 2 * offset_px wide_plane)
             (IconPlaneOptions.height wide_plane - 2 * offset_px wide_plane) = Inr source
         \<and> rendered_by (contents (\<lparr>name = ''icon.png'', contents = RawImage (plane_pipeline wide_plane
            (Rendered (resize_pipeline (raster16 2) 682 682 False)) True)\<rparr>)) = Some pipeline
         \<and> overlays (operations pipeline)
             = [Overlay (Rendered resizing) (offset_px wide_plane) (offset_px wide_plane)]
         \<and> pipeline_input resizing = FromBuffer (data source) density
         \<and> resize_boxes (operations resizing) = [box]
         \<and> ResizeOptions.width box = IconPlaneOptions.width wide_plane - 2 * offset_px wide_plane
         \<and> ResizeOptions.height box = IconPlaneOptions.height wide_plane - 2 * offset_px wide_plane
         \<and> fit box = ''contain''"
    by (rule createPlaneFavicon_offset [OF hyp])
qed

text \<open>
  C2, as stated: an opaque canvas is promoted to four channels with full alpha when the
  plane's transparent flag is set. It is not: with a background colour and the flag set
  the plane is rendered from a canvas of three channels, and no alpha channel is added.
\<close>

theorem createPlaneFavicon_canvas_counterexample:
  "IconPlaneOptions.transparent opaque_plane
   \<and> createPlaneFavicon validating_engine [raster16 2] opaque_plane ''icon.png'' False
       = Inr \<lparr>name = ''icon.png'', contents = Buffer (Rendered (Sharp
           (Create \<lparr>CreateOptions.width = 32, height = 32, channels = 3, background = ''#fff''\<rparr>)
           [Composite
              [Overlay
                 (Rendered (Sharp (FromBuffer (Bytes [2]) None)
                    [EnsureAlpha,
                     Resize \<lparr>ResizeOptions.width = 26, height = 26, fit = ''contain'',
                        background = ''#00000000'', kernel = Some ''nearest''\<rparr>]))
                 3 3],
            Png]))\<rparr>"
  using createPlaneFavicon_opaque_plane [of False]
  by (simp add: opaque_plane_fields plane_pipeline_def createBlankImage_cases
      offset_px_opaque_plane resize_pipeline_def raster16_def)

text \<open>
  C2, amended: whenever createPlaneFavicon renders a plane, its canvas was created at
  the plane's width and height, with four channels, the background \<open>#00000000\<close> and
  an ensured alpha channel when the background option is absent, empty or
  \<open>transparent\<close>, and otherwise with three channels, the given background colour and
  no alpha channel added. The transparent flag of the plane has no effect: with the flag
  changed, the outcome of the call is the same.
\<close>

theorem createPlaneFavicon_canvas:
  assumes "createPlaneFavicon engine sourceset options name' raw = Inr artifact"
  shows "\<exists>pipeline.
           rendered_by (contents artifact) = Some pipeline
         \<and> (if IconPlaneOptions.background options = None
               \<or> IconPlaneOptions.background options = Some []
               \<or> IconPlaneOptions.background options = Some ''transparent''
             then pipeline_input pipeline
                    = Create \<lparr>CreateOptions.width = IconPlaneOptions.width options,
                        height = IconPlaneOptions.height options, channels = 4,
                        background = ''#00000000''\<rparr>
                  \<and> EnsureAlpha \<in> set (operations pipeline)
             else pipeline_input pipeline
                    = Create \<lparr>CreateOptions.width = IconPlaneOptions.width options,
                        height = IconPlaneOptions.height options, channels = 3,
                        background = the (IconPlaneOptions.background options)\<rparr>
                  \<and> EnsureAlpha \<notin> set (operations pipeline))
         \<and> createPlaneFavicon engine sourceset (options\<lparr>IconPlaneOptions.transparent := flag\<rparr>) name' raw
             = createPlaneFavicon engine sourceset options name' raw"
proof -
  from assms obtain source where artifact: "artifact = \<lparr>name = name', contents =
           (if raw
            then RawImage (plane_pipeline options
              (Rendered (resize_pipeline source
                 (IconPlaneOptions.width options - offset_px options * 2)
                 (IconPlaneOptions.height options - offset_px options * 2)
                 (IconPlaneOptions.pixelArt options))) raw)
            else Buffer (Rendered (plane_pipeline options
              (Rendered (resize_pipeline source
                 (IconPlaneOptions.width options - offset_px options * 2)
                 (IconPlaneOptions.height options - offset_px options * 2)
                 (IconPlaneOptions.pixelArt options))) raw)))\<rparr>"
    by (rule createPlaneFavicon_fulfilled)
  have offset: "offset_px (options\<lparr>IconPlaneOptions.transparent := flag\<rparr>) = offset_px options"
    by (simp add: offset_px_def split: option.splits)
  have plane: "plane_pipeline (options\<lparr>IconPlaneOptions.transparent := flag\<rparr>) image' raw'
      = plane_pipeline options image' raw'" for image' raw'
    by (simp add: plane_pipeline_def offset)
  have same: "createPlaneFavicon engine sourceset (options\<lparr>IconPlaneOptions.transparent := flag\<rparr>)
        name' raw
      = createPlaneFavicon engine sourceset options name' raw"
    by (simp add: createPlaneFavicon_eq offset plane split: sum.splits option.splits)
  show ?thesis
    unfolding same
    by (simp add: artifact plane_pipeline_def createBlankImage_cases)
qed

theorem createPlaneFavicon_canvas_witness:
  "createPlaneFavicon validating_engine [raster16 2] opaque_plane ''icon.png'' False
     = Inr \<lparr>name = ''icon.png'', contents = Buffer (Rendered (plane_pipeline opaque_plane
            (Rendered (resize_pipeline (raster16 2) 26 26 True)) False))\<rparr>
   \<and> (\<exists>pipeline.
           rendered_by (contents (\<lparr>name = ''icon.png'', contents = Buffer (Rendered (plane_pipeline opaque_plane
            (Rendered (resize_pipeline (raster16 2) 26 26 True)) False))\<rparr>)) = Some pipeline
         \<and> (if IconPlaneOptions.background opaque_plane = None
               \<or> IconPlaneOptions.background opaque_plane = Some []
               \<or> IconPlaneOptions.background opaque_plane = Some ''transparent''
             then pipeline_input pipeline
                    = Create \<lparr>CreateOptions.width = IconPlaneOptions.width opaque_plane,
                        height = IconPlaneOptions.height opaque_plane, channels = 4,
                        background = ''#00000000''\<rparr>
                  \<and> EnsureAlpha \<in> set (operations pipeline)
             else pipeline_input pipeline
                    = Create \<lparr>CreateOptions.width = IconPlaneOptions.width opaque_plane,
                        height = IconPlaneOptions.height opaque_plane, channels = 3,
                        background = the (IconPlaneOptions.background opaque_plane)\<rparr>
                  \<and> EnsureAlpha \<notin> set (operations pipeline))
         \<and> createPlaneFavicon validating_engine [raster16 2] (opaque_plane\<lparr>IconPlaneOptions.transparent := False\<rparr>) ''icon.png'' False
             = createPlaneFavicon validating_engine [raster16 2] opaque_plane ''icon.png'' False)"
proof
  show hyp: "createPlaneFavicon validating_engine [raster16 2] opaque_plane ''icon.png'' False
     = Inr \<lparr>name = ''icon.png'', contents = Buffer (Rendered (plane_pipeline opaque_plane
            (Rendered (resize_pipeline (raster16 2) 26 26 True)) False))\<rparr>"
    using createPlaneFavicon_opaque_plane [of False] by simp
  show "\<exists>pipeline.
           rendered_by (contents (\<lparr>name = ''icon.png'', contents = Buffer (Rendered (plane_pipeline opaque_plane
            (Rendered (resize_pipeline (raster16 2) 26 26 True)) False))\<rparr>)) = Some pipeline
         \<and> (if IconPlaneOptions.background opaque_plane = None
               \<or> IconPlaneOptions.background opaque_plane = Some []
               \<or> IconPlaneOptions.background opaque_plane = Some ''transparent''
             then pipeline_input pipeline
                    = Create \<lparr>CreateOptions.width = IconPlaneOptions.width opaque_plane,
                        height = IconPlaneOptions.height opaque_plane, channels = 4,
                        background = ''#00000000''\<rparr>
                  \<and> EnsureAlpha \<in> set (operations pipeline)
             else pipeline_input pipeline
                    = Create \<lparr>CreateOptions.width = IconPlaneOptions.width opaque_plane,
                        height = IconPlaneOptions.height opaque_plane, channels = 3,
                        background = the (IconPlaneOptions.background opaque_plane)\<rparr>
                  \<and> EnsureAlpha \<notin> set (operations pipeline))
         \<and> createPlaneFavicon validating_engine [raster16 2] (opaque_plane\<lparr>IconPlaneOptions.transparent := False\<rparr>) ''icon.png'' False
             = createPlaneFavicon validating_engine [raster16 2] opaque_plane ''icon.png'' False"
    by (rule createPlaneFavicon_canvas [OF hyp])
qed

text \<open>
  C5, as stated: for every plane and every non-empty source list the renderer produces
  an output of exactly the plane's width and height. It does not: at an offset of 50
  percent the inner size of a plane of 32 by 32 is 0 by 0 and the resize is rejected, so
  that no output is produced; and a plane of 32 by 24 with the rotate flag and an offset
  of 12.5 percent is rendered, turned, to 24 by 32.
\<close>

theorem createPlaneFavicon_size_counterexample:
  "createPlaneFavicon validating_engine [raster16 2] half_plane ''icon.png'' False
       = Inl [Error ''Expected positive integer for width but received 0 of type number'']
   \<and> createPlaneFavicon validating_engine [raster16 2] turned_plane ''icon.png'' False
       = Inr \<lparr>name = ''icon.png'', contents = Buffer (Rendered (Sharp
           (Create \<lparr>CreateOptions.width = 32, height = 24, channels = 4,
              background = ''#00000000''\<rparr>)
           [EnsureAlpha,
            Composite
              [Overlay
                 (Rendered (Sharp (FromBuffer (Bytes [2]) None)
                    [EnsureAlpha,
                     Resize \<lparr>ResizeOptions.width = 24, height = 16, fit = ''contain'',
                        background = ''#00000000'', kernel = Some ''lanczos3''\<rparr>]))
                 4 4],
            Rotate 90, Png]))\<rparr>
   \<and> output_size (Sharp
           (Create \<lparr>CreateOptions.width = 32, height = 24, channels = 4,
              background = ''#00000000''\<rparr>)
           [EnsureAlpha,
            Composite
              [Overlay
                 (Rendered (Sharp (FromBuffer (Bytes [2]) None)
                    [EnsureAlpha,
                     Resize \<lparr>ResizeOptions.width = 24, height = 16, fit = ''contain'',
                        background = ''#00000000'', kernel = Some ''lanczos3''\<rparr>]))
                 4 4],
            Rotate 90, Png])
       = Some (24, 32)
   \<and> (IconPlaneOptions.width turned_plane, IconPlaneOptions.height turned_plane) = (32, 24)"
  using createPlaneFavicon_half_plane [of False] createPlaneFavicon_turned_plane [of False]
  by (simp add: turned_plane_fields plane_pipeline_def createBlankImage_cases
      offset_px_turned_plane resize_pipeline_def raster16_def output_size_def)

text \<open>
  C5, amended: whenever createPlaneFavicon renders a plane, the output has the pixel
  dimensions width by height when the rotate flag is off, and height by width when it
  is on.
\<close>

theorem createPlaneFavicon_size:
  assumes "createPlaneFavicon engine sourceset options name' raw = Inr artifact"
  shows "\<exists>pipeline.
           rendered_by (contents artifact) = Some pipeline
         \<and> output_size pipeline
             = Some (if IconPlaneOptions.rotate options
                     then (IconPlaneOptions.height options, IconPlaneOptions.width options)
                     else (IconPlaneOptions.width options, IconPlaneOptions.height options))"
proof -
  from assms obtain source where artifact: "artifact = \<lparr>name = name', contents =
           (if raw
            then RawImage (plane_pipeline options
              (Rendered (resize_pipeline source
                 (IconPlaneOptions.width options - offset_px options * 2)
                 (IconPlaneOptions.height options - offset_px options * 2)
                 (IconPlaneOptions.pixelArt options))) raw)
            else Buffer (Rendered (plane_pipeline options
              (Rendered (resize_pipeline source
                 (IconPlaneOptions.width options - offset_px options * 2)
                 (IconPlaneOptions.height options - offset_px options * 2)
                 (IconPlaneOptions.pixelArt options))) raw)))\<rparr>"
    by (rule createPlaneFavicon_fulfilled)
  show ?thesis
    by (simp add: artifact output_size_plane_pipeline)
qed

theorem createPlaneFavicon_size_witness:
  "createPlaneFavicon validating_engine [raster16 2] turned_plane ''icon.png'' True
     = Inr \<lparr>name = ''icon.png'', contents = RawImage (plane_pipeline turned_plane
            (Rendered (resize_pipeline (raster16 2) 24 16 False)) True)\<rparr>
   \<and> (\<exists>pipeline.
           rendered_by (contents (\<lparr>name = ''icon.png'', contents = RawImage (plane_pipeline turned_plane
            (Rendered (resize_pipeline (raster16 2) 24 16 False)) True)\<rparr>)) = Some pipeline
         \<and> output_size pipeline
             = Some (if IconPlaneOptions.rotate turned_plane
                     then (IconPlaneOptions.height turned_plane, IconPlaneOptions.width turned_plane)
                     else (IconPlaneOptions.width turned_plane, IconPlaneOptions.height turned_plane)))"
proof
  show hyp: "createPlaneFavicon validating_engine [raster16 2] turned_plane ''icon.png'' True
     = Inr \<lparr>name = ''icon.png'', contents = RawImage (plane_pipeline turned_plane
            (Rendered (resize_pipeline (raster16 2) 24 16 False)) True)\<rparr>"
    using createPlaneFavicon_turned_plane [of True] by simp
  show "\<exists>pipeline.
           rendered_by (contents (\<lparr>name = ''icon.png'', contents = RawImage (plane_pipeline turned_plane
            (Rendered (resize_pipeline (raster16 2) 24 16 False)) True)\<rparr>)) = Some pipeline
         \<and> output_size pipeline
             = Some (if IconPlaneOptions.rotate turned_plane
                     then (IconPlaneOptions.height turned_plane, IconPlaneOptions.width turned_plane)
                     else (IconPlaneOptions.width turned_plane, IconPlaneOptions.height turned_plane))"
    by (rule createPlaneFavicon_size [OF hyp])
qed

section \<open>Properties of the fan-out\<close>

lemma Promise_all_fulfilled: "Promise_all (map Inr vs) = Inr vs"
  by (induction vs) simp_all

lemma Promise_all_Inr_only: "Promise_all ps = Inr vs \<Longrightarrow> ps = map Inr vs"
proof (induction ps arbitrary: vs)
  case Nil
  then show ?case by simp
next
  case (Cons p ps)
  from Cons.prems obtain v vs' where "p = Inr v" and "Promise_all ps = Inr vs'" and "vs = v # vs'"
    by (auto split: sum.splits)
  with Cons.IH show ?case by simp
qed

lemma Promise_all_Inr: "Promise_all ps = Inr vs \<longleftrightarrow> ps = map Inr vs"
  using Promise_all_fulfilled Promise_all_Inr_only by blast

lemma mapAsync_sequential_Inr:
  "mapAsync_sequential inputs computation result index = Inr ys \<longleftrightarrow>
     (\<exists>us. ys = result @ us
         \<and> map (\<lambda>(input, index). computation input index)
              (zip inputs [index..<index + length inputs]) = map Inr us)"
proof (induction inputs arbitrary: result index)
  case Nil
  show ?case by auto
next
  case (Cons input inputs)
  have upt: "[index..<index + length (input # inputs)]
      = index # [index + 1..<index + 1 + length inputs]"
    by (subst upt_rec) simp
  show ?case
  proof (cases "computation input index")
    case (Inl es)
    then show ?thesis
      unfolding upt by auto
  next
    case (Inr u)
    have "(\<exists>us. ys = (result @ [u]) @ us
            \<and> map (\<lambda>(input, index). computation input index)
                 (zip inputs [index + 1..<index + 1 + length inputs]) = map Inr us)
        \<longleftrightarrow> (\<exists>us. ys = result @ us
            \<and> Inr u # map (\<lambda>(input, index). computation input index)
                 (zip inputs [index + 1..<index + 1 + length inputs]) = map Inr us)"
      (is "?l \<longleftrightarrow> ?r")
    proof
      assume ?l
      then obtain us where "ys = result @ (u # us)"
        and "map (\<lambda>(input, index). computation input index)
               (zip inputs [index + 1..<index + 1 + length inputs]) = map Inr us"
        by auto
      then show ?r
        by (intro exI [of _ "u # us"]) simp
    next
      assume ?r
      then obtain us where ys: "ys = result @ us"
        and eq: "Inr u # map (\<lambda>(input, index). computation input index)
               (zip inputs [index + 1..<index + 1 + length inputs]) = map Inr us"
        by auto
      from eq obtain us' where "us = u # us'"
        and "map (\<lambda>(input, index). computation input index)
               (zip inputs [index + 1..<index + 1 + length inputs]) = map Inr us'"
        by (cases us) auto
      then show ?l
        using ys by (intro exI [of _ us']) simp
    qed
    then show ?thesis
      unfolding upt using Inr Cons.IH [of "result @ [u]" "index + 1"] by simp
  qed
qed

lemma mapAsync_Inr:
  "mapAsync platform inputs computation = Inr ys \<longleftrightarrow>
     map (\<lambda>(input, index). computation input index) (zip inputs [0..<length inputs]) = map Inr ys"
proof (cases "platform = ''win32''")
  case True
  then show ?thesis
    using mapAsync_sequential_Inr [of inputs computation "[]" 0 ys] by (simp add: mapAsync_def)
next
  case False
  then show ?thesis
    by (simp add: mapAsync_def Promise_all_Inr)
qed

lemma mapAsync_Inr_nth:
  "mapAsync platform inputs computation = Inr ys \<longleftrightarrow>
     length ys = length inputs \<and> (\<forall>i<length inputs. computation (inputs ! i) i = Inr (ys ! i))"
proof -
  let ?ps = "map (\<lambda>(input, index). computation input index) (zip inputs [0..<length inputs])"
  have nth: "?ps ! i = computation (inputs ! i) i" if "i < length inputs" for i
    using that by simp
  have "?ps = map Inr ys \<longleftrightarrow>
      length ys = length inputs \<and> (\<forall>i<length inputs. computation (inputs ! i) i = Inr (ys ! i))"
  proof (intro iffI conjI allI impI)
    assume eq: "?ps = map Inr ys"
    from arg_cong [OF eq, of length] show len: "length ys = length inputs"
      by simp
    fix i assume i: "i < length inputs"
    from arg_cong [OF eq, of "\<lambda>xs. xs ! i"] show "computation (inputs ! i) i = Inr (ys ! i)"
      using i len by simp
  next
    assume "length ys = length inputs
      \<and> (\<forall>i<length inputs. computation (inputs ! i) i = Inr (ys ! i))"
    then show "?ps = map Inr ys"
      by (intro nth_equalityI) simp_all
  qed
  then show ?thesis
    by (simp only: mapAsync_Inr)
qed

text \<open>
  C9: whenever mapAsync fulfils, in either scheduling mode, the result list has one
  result per input, the result at each position is that of the computation on the input
  at that position (with that index), and the other scheduling mode fulfils with the
  same list; on computations that always fulfil both modes return the list of the
  per-element results in input order.
\<close>

theorem mapAsync_positional:
  "(mapAsync platform inputs computation = Inr ys \<longrightarrow>
      length ys = length inputs
      \<and> (\<forall>i<length inputs. computation (inputs ! i) i = Inr (ys ! i))
      \<and> mapAsync platform' inputs computation = Inr ys)
   \<and> mapAsync platform inputs (\<lambda>input index. Inr (f input index))
       = Inr (map (\<lambda>i. f (inputs ! i) i) [0..<length inputs])"
proof (intro conjI impI)
  assume ok: "mapAsync platform inputs computation = Inr ys"
  then show "length ys = length inputs"
    and "\<forall>i<length inputs. computation (inputs ! i) i = Inr (ys ! i)"
    by (simp_all add: mapAsync_Inr_nth)
  from ok show "mapAsync platform' inputs computation = Inr ys"
    by (simp add: mapAsync_Inr)
next
  show "mapAsync platform inputs (\<lambda>input index. Inr (f input index))
       = Inr (map (\<lambda>i. f (inputs ! i) i) [0..<length inputs])"
    by (simp add: mapAsync_Inr_nth)
qed

theorem mapAsync_positional_witness:
  "mapAsync ''win32'' [10, 20, 30] (\<lambda>input index. if input < 40 then Inr (input + int index) else Inl [Error ''too large''])
      = Inr [10, 21, 32]
   \<and> length [10, 21, 32::int] = length [10, 20, 30::int]
   \<and> mapAsync ''linux'' [10, 20, 30] (\<lambda>input index. if input < 40 then Inr (input + int index) else Inl [Error ''too large''])
      = Inr [10, 21, 32]
   \<and> mapAsync ''win32'' [10, 20, 30] (\<lambda>input index. Inr (input + int index))
       = Inr (map (\<lambda>i. [10, 20, 30] ! i + int i) [0..<length [10, 20, 30::int]])"
proof -
  have ok: "mapAsync ''win32'' [10, 20, 30]
      (\<lambda>input index. if input < 40 then Inr (input + int index) else Inl [Error ''too large''])
      = Inr [10, 21, 32::int]"
    by (simp add: mapAsync_def)
  show ?thesis
    using ok mapAsync_positional [of "''win32''" "[10, 20, 30::int]"
        "\<lambda>input index. if input < 40 then Inr (input + int index) else Inl [Error ''too large'']"
        "[10, 21, 32]" "''linux''" "\<lambda>input index. input + int index"]
    by simp
qed

section \<open>Properties of the assembler\<close>

text \<open>
  The extension of a name follows the platform: a backslash separates path segments
  under win32 only, where a drive prefix is skipped as well.
\<close>

lemma extname_platform:
  "extname ''linux'' (''icons.ico'' @ [CHR 0x5C] @ ''favicon'') = ''.ico'' @ [CHR 0x5C] @ ''favicon''"
  "extname ''win32'' (''icons.ico'' @ [CHR 0x5C] @ ''favicon'') = []"
  "extname ''win32'' ''C:favicon.ico'' = ''.ico''"
  "extname ''win32'' ''C:.ico'' = []"
  "extname ''linux'' ''C:.ico'' = ''.ico''"
  "extname ''linux'' ''icons/.ico'' = []"
  "extname ''linux'' ''icons.d/favicon.ico/'' = ''.ico''"
  by (simp_all add: extname_def isPathSeparator_def isWindowsDeviceRoot_def)

lemma mapAsync_all_fulfilled:
  assumes "\<forall>x\<in>set inputs. \<forall>i. \<exists>y. computation x i = Inr y"
  shows "\<exists>ys. mapAsync platform inputs computation = Inr ys \<and> length ys = length inputs
           \<and> (\<forall>i<length inputs. computation (inputs ! i) i = Inr (ys ! i))"
proof -
  define ys where "ys = map (\<lambda>i. projr (computation (inputs ! i) i)) [0..<length inputs]"
  have "computation (inputs ! i) i = Inr (ys ! i)" if "i < length inputs" for i
  proof -
    from assms that obtain y where "computation (inputs ! i) i = Inr y"
      using nth_mem by blast
    then show ?thesis
      using that by (simp add: ys_def)
  qed
  moreover have "length ys = length inputs"
    by (simp add: ys_def)
  ultimately show ?thesis
    using mapAsync_Inr_nth [of platform inputs computation ys] by blast
qed









section \<open>Properties of the source loader\<close>

lemma Promise_all_reasons:
  assumes "Promise_all ps = Inl es"
    and "\<forall>p\<in>set ps. \<forall>es'. p = Inl es' \<longrightarrow> es' \<noteq> [] \<and> set es' \<subseteq> E"
  shows "es \<noteq> [] \<and> set es \<subseteq> E"
  using assms
proof (induction ps arbitrary: es)
  case Nil
  then show ?case by simp
next
  case (Cons p ps)
  show ?case
  proof (cases p)
    case (Inl e)
    with Cons.prems(2) have e: "e \<noteq> [] \<and> set e \<subseteq> E"
      by simp
    show ?thesis
    proof (cases "Promise_all ps")
      case (Inl es')
      with Cons.IH [of es'] Cons.prems(2) have "es' \<noteq> [] \<and> set es' \<subseteq> E"
        by simp
      with e Inl \<open>p = Inl e\<close> Cons.prems(1) show ?thesis
        by auto
    next
      case (Inr vs)
      with e \<open>p = Inl e\<close> Cons.prems(1) show ?thesis
        by auto
    qed
  next
    case (Inr v)
    with Cons.prems(1) have "Promise_all ps = Inl es"
      by (auto split: sum.splits)
    with Cons.IH [of es] Cons.prems(2) show ?thesis
      by simp
  qed
qed

lemma mapAsync_sequential_reasons:
  assumes "mapAsync_sequential inputs computation result index = Inl es"
    and "\<forall>x\<in>set inputs. \<forall>i es'. computation x i = Inl es' \<longrightarrow> es' \<noteq> [] \<and> set es' \<subseteq> E"
  shows "es \<noteq> [] \<and> set es \<subseteq> E"
  using assms
proof (induction inputs arbitrary: result index)
  case Nil
  then show ?case by simp
next
  case (Cons input inputs)
  show ?case
  proof (cases "computation input index")
    case (Inl es')
    with Cons.prems show ?thesis
      by auto
  next
    case (Inr u)
    with Cons.prems(1)
    have "mapAsync_sequential inputs computation (result @ [u]) (index + 1) = Inl es"
      by simp
    with Cons.IH Cons.prems(2) show ?thesis
      by simp
  qed
qed

lemma mapAsync_reasons:
  assumes "mapAsync platform inputs computation = Inl es"
    and "\<forall>x\<in>set inputs. \<forall>i es'. computation x i = Inl es' \<longrightarrow> es' \<noteq> [] \<and> set es' \<subseteq> E"
  shows "es \<noteq> [] \<and> set es \<subseteq> E"
proof (cases "platform = ''win32''")
  case True
  with assms(1) have "mapAsync_sequential inputs computation [] 0 = Inl es"
    by (simp add: mapAsync_def)
  then show ?thesis
    using assms(2) by (rule mapAsync_sequential_reasons)
next
  case False
  let ?ps = "map (\<lambda>(input, index). computation input index) (zip inputs [0..<length inputs])"
  from False assms(1) have "Promise_all ?ps = Inl es"
    by (simp add: mapAsync_def)
  moreover have "\<forall>p\<in>set ?ps. \<forall>es'. p = Inl es' \<longrightarrow> es' \<noteq> [] \<and> set es' \<subseteq> E"
    using assms(2) by (auto dest: set_zip_leftD)
  ultimately show ?thesis
    by (rule Promise_all_reasons)
qed

lemma sourceImages_single:
  assumes "\<not> isArray x" and "sourceImages platform readFile sharp_metadata x = Inr images"
  shows "\<exists>image. images = [image]"
  using assms by (cases x) (auto split: option.splits sum.splits)

lemma concat_singletons:
  "\<forall>ys\<in>set yss. \<exists>y. ys = [y] \<Longrightarrow> concat yss = map hd yss"
  by (induction yss) auto

lemma not_list_ex_isArray: "\<not> list_ex isArray xs \<Longrightarrow> x \<in> set xs \<Longrightarrow> \<not> isArray x"
  by (auto simp: list_ex_iff)

lemma sourceImages_flat_list:
  assumes "zs \<noteq> []" and "\<not> list_ex isArray zs"
    and "\<forall>x\<in>set zs. \<exists>images. sourceImages platform readFile sharp_metadata x = Inr images"
  shows "\<exists>images. sourceImages platform readFile sharp_metadata (ArraySource zs) = Inr images
           \<and> length images = length zs
           \<and> (\<forall>i<length zs. sourceImages platform readFile sharp_metadata (zs ! i)
                 = Inr [images ! i])"
proof -
  let ?load = "\<lambda>x (index::nat). sourceImages platform readFile sharp_metadata x"
  from assms(3) have "\<forall>x\<in>set zs. \<forall>i. \<exists>images. ?load x i = Inr images"
    by blast
  from mapAsync_all_fulfilled [OF this, of platform]
  obtain yss where all: "mapAsync platform zs ?load = Inr yss"
    and len: "length yss = length zs"
    and nth: "\<forall>i<length zs. ?load (zs ! i) i = Inr (yss ! i)"
    by blast
  have single: "\<exists>image. yss ! i = [image]" if "i < length zs" for i
  proof -
    from that have "zs ! i \<in> set zs"
      by simp
    with assms(2) have "\<not> isArray (zs ! i)"
      by (rule not_list_ex_isArray)
    moreover from nth that have "?load (zs ! i) i = Inr (yss ! i)"
      by blast
    ultimately show ?thesis
      by (rule sourceImages_single)
  qed
  then have "\<forall>ys\<in>set yss. \<exists>y. ys = [y]"
    using len by (auto simp: in_set_conv_nth)
  then have concat: "concat yss = map hd yss"
    by (rule concat_singletons)
  have "sourceImages platform readFile sharp_metadata (ArraySource zs) = Inr (map hd yss)"
    using assms(1,2) all concat by simp
  moreover have "sourceImages platform readFile sharp_metadata (zs ! i) = Inr [map hd yss ! i]"
    if "i < length zs" for i
  proof -
    from single [OF that] obtain image where "yss ! i = [image]"
      by blast
    with nth that len show ?thesis
      by simp
  qed
  ultimately show ?thesis
    using len by simp
qed

lemma sourceImages_other_element:
  assumes "\<not> list_ex isArray ys" and "OtherSource \<in> set ys"
    and "\<forall>x\<in>set ys. x = OtherSource
           \<or> (\<exists>images. sourceImages platform readFile sharp_metadata x = Inr images)"
  shows "\<exists>es. sourceImages platform readFile sharp_metadata (ArraySource ys) = Inl es
           \<and> es \<noteq> [] \<and> set es \<subseteq> {Error ''Invalid source type provided''}"
proof -
  let ?load = "\<lambda>x (index::nat). sourceImages platform readFile sharp_metadata x"
  from assms(2) have nonempty: "ys \<noteq> []"
    by auto
  from assms(2) obtain k where k: "k < length ys" "ys ! k = OtherSource"
    by (auto simp: in_set_conv_nth)
  have "mapAsync platform ys ?load \<noteq> Inr yss" for yss
  proof
    assume "mapAsync platform ys ?load = Inr yss"
    then have "?load (ys ! k) k = Inr (yss ! k)"
      using k(1) by (simp add: mapAsync_Inr_nth)
    then show False
      using k(2) by simp
  qed
  then obtain es where es: "mapAsync platform ys ?load = Inl es"
    by (cases "mapAsync platform ys ?load") auto
  have "\<forall>x\<in>set ys. \<forall>i es'. ?load x i = Inl es'
      \<longrightarrow> es' \<noteq> [] \<and> set es' \<subseteq> {Error ''Invalid source type provided''}"
  proof (intro ballI allI impI)
    fix x i es'
    assume "x \<in> set ys" and rejected: "?load x i = Inl es'"
    with assms(3) have "x = OtherSource"
      by auto
    with rejected show "es' \<noteq> [] \<and> set es' \<subseteq> {Error ''Invalid source type provided''}"
      by auto
  qed
  from mapAsync_reasons [OF es this]
  show ?thesis
    using assms(1) nonempty es by simp
qed

lemma sourceImages_rejection_nonempty:
  assumes "\<not> isArray x" and "sourceImages platform readFile sharp_metadata x = Inl es"
  shows "es \<noteq> []"
  using assms by (cases x) (auto split: option.splits sum.splits)

lemma sourceImages_flat_rejection:
  assumes "\<not> list_ex isArray ys"
    and "\<exists>x\<in>set ys. \<exists>es. sourceImages platform readFile sharp_metadata x = Inl es"
  shows "\<exists>es. sourceImages platform readFile sharp_metadata (ArraySource ys) = Inl es
           \<and> es \<noteq> []
           \<and> (\<forall>e\<in>set es. \<exists>x\<in>set ys. \<exists>es'.
                 sourceImages platform readFile sharp_metadata x = Inl es' \<and> e \<in> set es')"
proof -
  let ?load = "\<lambda>x (index::nat). sourceImages platform readFile sharp_metadata x"
  let ?E = "{e. \<exists>x\<in>set ys. \<exists>es'. ?load x 0 = Inl es' \<and> e \<in> set es'}"
  from assms(2) have nonempty: "ys \<noteq> []"
    by auto
  from assms(2) obtain k es0 where k: "k < length ys" "?load (ys ! k) k = Inl es0"
    by (auto simp: in_set_conv_nth)
  have "mapAsync platform ys ?load \<noteq> Inr yss" for yss
  proof
    assume "mapAsync platform ys ?load = Inr yss"
    then have "?load (ys ! k) k = Inr (yss ! k)"
      using k(1) by (simp add: mapAsync_Inr_nth)
    then show False
      using k(2) by simp
  qed
  then obtain es where es: "mapAsync platform ys ?load = Inl es"
    by (cases "mapAsync platform ys ?load") auto
  have "\<forall>x\<in>set ys. \<forall>i es'. ?load x i = Inl es' \<longrightarrow> es' \<noteq> [] \<and> set es' \<subseteq> ?E"
  proof (intro ballI allI impI conjI)
    fix x i es'
    assume x: "x \<in> set ys" and rejected: "?load x i = Inl es'"
    from assms(1) x have "\<not> isArray x"
      by (rule not_list_ex_isArray)
    then show "es' \<noteq> []"
      using rejected by (rule sourceImages_rejection_nonempty)
    show "set es' \<subseteq> ?E"
      using x rejected by auto
  qed
  from mapAsync_reasons [OF es this]
  have "es \<noteq> []" and "set es \<subseteq> ?E"
    by simp_all
  moreover have "sourceImages platform readFile sharp_metadata (ArraySource ys) = Inl es"
    using assms(1) nonempty es by simp
  ultimately show ?thesis
    by blast
qed

lemma mapAsync_sequential_first_rejection:
  assumes "\<forall>p\<in>set pre. \<forall>i. \<exists>y. computation p i = Inr y"
    and "\<forall>i. computation x i = Inl es"
  shows "mapAsync_sequential (pre @ x # post) computation result index = Inl es"
  using assms(1)
proof (induction pre arbitrary: result index)
  case Nil
  show ?case
    using assms(2) by simp
next
  case (Cons p pre)
  from Cons.prems have "\<exists>y. computation p index = Inr y"
    by simp
  then obtain y where "computation p index = Inr y" ..
  then show ?case
    using Cons.IH Cons.prems by simp
qed

lemma sourceImages_first_rejection:
  assumes "\<not> list_ex isArray (pre @ x # post)"
    and "\<forall>p\<in>set pre. \<exists>images. sourceImages ''win32'' readFile sharp_metadata p = Inr images"
    and "sourceImages ''win32'' readFile sharp_metadata x = Inl es"
  shows "sourceImages ''win32'' readFile sharp_metadata (ArraySource (pre @ x # post)) = Inl es"
proof -
  let ?load = "\<lambda>x (index::nat). sourceImages ''win32'' readFile sharp_metadata x"
  have "mapAsync_sequential (pre @ x # post) ?load [] 0 = Inl es"
    using assms(2,3) by (intro mapAsync_sequential_first_rejection) auto
  then show ?thesis
    using assms(1) by (simp add: mapAsync_def)
qed

text \<open>
  C8, as stated: a list that holds a value that is neither buffer nor string fails with
  the invalid-source-type error. It need not: in the sequential mode a flat list whose
  first element is a buffer that does not decode fails with the invalid-image error,
  and one whose first element is the path of a missing file fails with the error of the
  file system, whatever follows in the list.
\<close>

theorem sourceImages_invalid_type_counterexample:
  "OtherSource \<in> set [BufferSource (Bytes [104, 105]), OtherSource]
   \<and> \<not> list_ex isArray [BufferSource (Bytes [104, 105]), OtherSource]
   \<and> sourceImages ''win32'' icon_file png_metadata
         (ArraySource [BufferSource (Bytes [104, 105]), OtherSource])
       = Inl [Error ''Invalid image buffer'']
   \<and> sourceImages ''win32'' icon_file png_metadata
         (ArraySource [StringSource ''missing.png'', OtherSource])
       = Inl [Error ''ENOENT'']"
  by (simp add: mapAsync_def icon_file_def png_metadata_def)

text \<open>
  C8, amended: sourceImages rejects with the invalid-image error for a buffer, or a
  file, that the engine cannot decode; with the no-source error for an empty list; and
  with the invalid-source-type error for a list that holds a nested list and for a value
  that is neither buffer, string nor list. A flat list with a failing element rejects,
  with a reason with which one of its elements fails; in the sequential mode that is
  the reason of its first failing element. So a flat list with a value that is neither
  buffer nor string rejects with the invalid-source-type error when its other elements
  load. A decodable buffer loads as one image, and a non-empty flat list whose elements
  all load gives one image per element, in the order of the elements.
\<close>

theorem sourceImages_contract:
  "(sharp_metadata bad = None \<longrightarrow>
      sourceImages platform readFile sharp_metadata (BufferSource bad)
        = Inl [Error ''Invalid image buffer''])
   \<and> (readFile path = Inr bad \<and> sharp_metadata bad = None \<longrightarrow>
      sourceImages platform readFile sharp_metadata (StringSource path)
        = Inl [Error ''Invalid image buffer''])
   \<and> sourceImages platform readFile sharp_metadata (ArraySource [])
        = Inl [Error ''No source provided'']
   \<and> (list_ex isArray xs \<longrightarrow>
      sourceImages platform readFile sharp_metadata (ArraySource xs)
        = Inl [Error ''Invalid source type provided''])
   \<and> sourceImages platform readFile sharp_metadata OtherSource
        = Inl [Error ''Invalid source type provided'']
   \<and> (\<not> list_ex isArray ws
       \<and> (\<exists>x\<in>set ws. \<exists>es. sourceImages platform readFile sharp_metadata x = Inl es) \<longrightarrow>
      (\<exists>es. sourceImages platform readFile sharp_metadata (ArraySource ws) = Inl es
           \<and> es \<noteq> []
           \<and> (\<forall>e\<in>set es. \<exists>x\<in>set ws. \<exists>es'.
                 sourceImages platform readFile sharp_metadata x = Inl es' \<and> e \<in> set es')))
   \<and> (\<not> list_ex isArray (pre @ x # post)
       \<and> (\<forall>p\<in>set pre. \<exists>images. sourceImages ''win32'' readFile sharp_metadata p = Inr images)
       \<and> sourceImages ''win32'' readFile sharp_metadata x = Inl reasons \<longrightarrow>
      sourceImages ''win32'' readFile sharp_metadata (ArraySource (pre @ x # post))
        = Inl reasons)
   \<and> (\<not> list_ex isArray ys \<and> OtherSource \<in> set ys
       \<and> (\<forall>x\<in>set ys. x = OtherSource
             \<or> (\<exists>images. sourceImages platform readFile sharp_metadata x = Inr images)) \<longrightarrow>
      (\<exists>es. sourceImages platform readFile sharp_metadata (ArraySource ys) = Inl es
           \<and> es \<noteq> [] \<and> set es \<subseteq> {Error ''Invalid source type provided''}))
   \<and> (sharp_metadata good = Some m \<longrightarrow>
      sourceImages platform readFile sharp_metadata (BufferSource good)
        = Inr [\<lparr>data = good, metadata = m\<rparr>])
   \<and> (zs \<noteq> [] \<and> \<not> list_ex isArray zs
       \<and> (\<forall>x\<in>set zs. \<exists>images. sourceImages platform readFile sharp_metadata x = Inr images) \<longrightarrow>
      (\<exists>images. sourceImages platform readFile sharp_metadata (ArraySource zs) = Inr images
           \<and> length images = length zs
           \<and> (\<forall>i<length zs. sourceImages platform readFile sharp_metadata (zs ! i)
                 = Inr [images ! i])))"
proof (intro conjI impI)
  show "sourceImages platform readFile sharp_metadata (ArraySource xs)
      = Inl [Error ''Invalid source type provided'']" if "list_ex isArray xs"
    using that by simp
next
  assume "\<not> list_ex isArray ws
    \<and> (\<exists>x\<in>set ws. \<exists>es. sourceImages platform readFile sharp_metadata x = Inl es)"
  then show "\<exists>es. sourceImages platform readFile sharp_metadata (ArraySource ws) = Inl es
      \<and> es \<noteq> []
      \<and> (\<forall>e\<in>set es. \<exists>x\<in>set ws. \<exists>es'.
            sourceImages platform readFile sharp_metadata x = Inl es' \<and> e \<in> set es')"
    using sourceImages_flat_rejection [of ws platform readFile sharp_metadata] by blast
next
  assume "\<not> list_ex isArray (pre @ x # post)
    \<and> (\<forall>p\<in>set pre. \<exists>images. sourceImages ''win32'' readFile sharp_metadata p = Inr images)
    \<and> sourceImages ''win32'' readFile sharp_metadata x = Inl reasons"
  then show "sourceImages ''win32'' readFile sharp_metadata (ArraySource (pre @ x # post))
      = Inl reasons"
    using sourceImages_first_rejection [of pre x post readFile sharp_metadata reasons] by blast
next
  assume "\<not> list_ex isArray ys \<and> OtherSource \<in> set ys
    \<and> (\<forall>x\<in>set ys. x = OtherSource
          \<or> (\<exists>images. sourceImages platform readFile sharp_metadata x = Inr images))"
  then show "\<exists>es. sourceImages platform readFile sharp_metadata (ArraySource ys) = Inl es
      \<and> es \<noteq> [] \<and> set es \<subseteq> {Error ''Invalid source type provided''}"
    using sourceImages_other_element [of ys platform readFile sharp_metadata] by blast
next
  assume "zs \<noteq> [] \<and> \<not> list_ex isArray zs
    \<and> (\<forall>x\<in>set zs. \<exists>images. sourceImages platform readFile sharp_metadata x = Inr images)"
  then show "\<exists>images. sourceImages platform readFile sharp_metadata (ArraySource zs) = Inr images
      \<and> length images = length zs
      \<and> (\<forall>i<length zs. sourceImages platform readFile sharp_metadata (zs ! i) = Inr [images ! i])"
    using sourceImages_flat_list [of zs platform readFile sharp_metadata] by blast
qed simp_all

theorem sourceImages_contract_witness:
  "png_metadata (Bytes [104, 105]) = None
   \<and> sourceImages ''win32'' icon_file png_metadata (BufferSource (Bytes [104, 105]))
       = Inl [Error ''Invalid image buffer'']
   \<and> icon_file ''notes.txt'' = Inr (Bytes [104, 105])
   \<and> sourceImages ''win32'' icon_file png_metadata (StringSource ''notes.txt'')
       = Inl [Error ''Invalid image buffer'']
   \<and> sourceImages ''win32'' icon_file png_metadata (ArraySource [])
       = Inl [Error ''No source provided'']
   \<and> list_ex isArray [BufferSource (Bytes [137, 80, 78, 71]), ArraySource [StringSource ''icon.png'']]
   \<and> sourceImages ''win32'' icon_file png_metadata
         (ArraySource [BufferSource (Bytes [137, 80, 78, 71]), ArraySource [StringSource ''icon.png'']])
       = Inl [Error ''Invalid source type provided'']
   \<and> sourceImages ''win32'' icon_file png_metadata OtherSource
       = Inl [Error ''Invalid source type provided'']
   \<and> (\<exists>es. sourceImages ''win32'' icon_file png_metadata
               (ArraySource [BufferSource (Bytes [104, 105]), OtherSource]) = Inl es
           \<and> es \<noteq> []
           \<and> set es \<subseteq> {Error ''Invalid image buffer'', Error ''Invalid source type provided''})
   \<and> sourceImages ''win32'' icon_file png_metadata
         (ArraySource [StringSource ''icon.png'', OtherSource, BufferSource (Bytes [104, 105])])
       = Inl [Error ''Invalid source type provided'']
   \<and> (\<exists>es. sourceImages ''win32'' icon_file png_metadata
               (ArraySource [StringSource ''icon.png'', OtherSource]) = Inl es
           \<and> es \<noteq> [] \<and> set es \<subseteq> {Error ''Invalid source type provided''})
   \<and> png_metadata (Bytes [137, 80, 78, 71])
       = Some \<lparr>Metadata.width = 16, height = 16, format = ''png''\<rparr>
   \<and> sourceImages ''win32'' icon_file png_metadata (BufferSource (Bytes [137, 80, 78, 71]))
       = Inr [\<lparr>data = Bytes [137, 80, 78, 71],
               metadata = \<lparr>Metadata.width = 16, height = 16, format = ''png''\<rparr>\<rparr>]
   \<and> (\<exists>images. sourceImages ''win32'' icon_file png_metadata
               (ArraySource [StringSource ''icon.png'', BufferSource (Bytes [137, 80, 78, 71])])
             = Inr images
           \<and> length images = length [StringSource ''icon.png'', BufferSource (Bytes [137, 80, 78, 71])])"
proof -
  let ?png = "Bytes [137, 80, 78, 71]" and ?txt = "Bytes [104, 105]"
  let ?load = "sourceImages ''win32'' icon_file png_metadata"
  note contract = sourceImages_contract [of png_metadata "?txt" "''win32''" icon_file
      "''notes.txt''" "[BufferSource ?png, ArraySource [StringSource ''icon.png'']]"
      "[BufferSource ?txt, OtherSource]"
      "[StringSource ''icon.png'']" OtherSource "[BufferSource ?txt]"
      "[Error ''Invalid source type provided'']"
      "[StringSource ''icon.png'', OtherSource]"
      "?png" "\<lparr>Metadata.width = 16, height = 16, format = ''png''\<rparr>"
      "[StringSource ''icon.png'', BufferSource ?png]"]
  have undecodable: "png_metadata ?txt = None"
    and png: "png_metadata ?png = Some \<lparr>Metadata.width = 16, height = 16, format = ''png''\<rparr>"
    and readable: "icon_file ''notes.txt'' = Inr ?txt"
    and icon: "icon_file ''icon.png'' = Inr ?png"
    by (simp_all add: icon_file_def png_metadata_def)
  have loads: "?load (StringSource ''icon.png'')
      = Inr [\<lparr>data = ?png, metadata = \<lparr>Metadata.width = 16, height = 16, format = ''png''\<rparr>\<rparr>]"
    "?load (BufferSource ?png)
      = Inr [\<lparr>data = ?png, metadata = \<lparr>Metadata.width = 16, height = 16, format = ''png''\<rparr>\<rparr>]"
    and fails: "?load (BufferSource ?txt) = Inl [Error ''Invalid image buffer'']"
      "?load OtherSource = Inl [Error ''Invalid source type provided'']"
    by (simp_all add: icon png undecodable)
  from contract have "\<exists>es. ?load (ArraySource [BufferSource ?txt, OtherSource]) = Inl es
      \<and> es \<noteq> []
      \<and> (\<forall>e\<in>set es. \<exists>x\<in>set [BufferSource ?txt, OtherSource]. \<exists>es'.
            ?load x = Inl es' \<and> e \<in> set es')"
    using fails by simp
  then have mixed: "\<exists>es. ?load (ArraySource [BufferSource ?txt, OtherSource]) = Inl es
      \<and> es \<noteq> []
      \<and> set es \<subseteq> {Error ''Invalid image buffer'', Error ''Invalid source type provided''}"
    using fails by auto
  from contract have first: "?load (ArraySource
        [StringSource ''icon.png'', OtherSource, BufferSource ?txt])
      = Inl [Error ''Invalid source type provided'']"
    using loads fails by simp
  from contract have other: "\<exists>es. ?load (ArraySource [StringSource ''icon.png'', OtherSource])
        = Inl es
      \<and> es \<noteq> [] \<and> set es \<subseteq> {Error ''Invalid source type provided''}"
    using loads by simp
  from contract have list: "\<exists>images.
      ?load (ArraySource [StringSource ''icon.png'', BufferSource ?png]) = Inr images
      \<and> length images = length [StringSource ''icon.png'', BufferSource ?png]"
    using loads by simp blast
  from contract undecodable readable png have
    "?load (BufferSource ?txt) = Inl [Error ''Invalid image buffer'']"
    "?load (StringSource ''notes.txt'') = Inl [Error ''Invalid image buffer'']"
    "?load (ArraySource []) = Inl [Error ''No source provided'']"
    "?load (ArraySource [BufferSource ?png, ArraySource [StringSource ''icon.png'']])
      = Inl [Error ''Invalid source type provided'']"
    "?load OtherSource = Inl [Error ''Invalid source type provided'']"
    "?load (BufferSource ?png)
      = Inr [\<lparr>data = ?png, metadata = \<lparr>Metadata.width = 16, height = 16, format = ''png''\<rparr>\<rparr>]"
    by simp_all
  with undecodable readable png mixed first other list show ?thesis
    by simp
qed

end
